theory Spec2Isabelle
  imports Complex_Main "HOL-Library.Word"
begin

section \<open>Resilient call wrapper (services/geminiService.ts)\<close>

text \<open>
  \<^verbatim>\<open>withRetry\<close> calls an asynchronous operation up to \<^verbatim>\<open>MAX_RETRIES\<close> times. A thrown
  value is represented by the string \<^verbatim>\<open>e.toString()\<close>, which is all the wrapper looks at.
  The operation is a closure with effects of its own, so it is a state transformer that returns
  either the thrown value (\<open>Inl\<close>) or the resolved value (\<open>Inr\<close>). The successive results of
  \<^verbatim>\<open>Math.random()\<close> are given by \<open>rnd\<close>: \<open>rnd i\<close> is the draw made in iteration \<open>i\<close>.
  Times are in milliseconds.
\<close>

subsection \<open>Double precision arithmetic\<close>

text \<open>
  JavaScript numbers are IEEE 754 doubles, and every arithmetic operation rounds its exact
  result to the nearest double, a tie going to the double whose last significand bit is even.
  A finite double is modelled by the real number it denotes. \<open>quantum x\<close> is the spacing of
  the doubles around \<open>x\<close>: 53 significand bits, and never finer than \<open>2 ^ - 1074\<close> (gradual
  underflow). \<open>fl x\<close> is the double that the exact result \<open>x\<close> is rounded to. Overflow is not
  modelled: the delays stay below \<open>2 ^ 13\<close>.
\<close>

definition round_ties_even :: "real \<Rightarrow> int" where
  "round_ties_even y =
     (let f = \<lfloor>y\<rfloor> in
      if y - of_int f < 1 / 2 then f
      else if 1 / 2 < y - of_int f then f + 1
      else if even f then f else f + 1)"

definition quantum :: "real \<Rightarrow> real" where
  "quantum x = 2 powi (max (\<lfloor>log 2 \<bar>x\<bar>\<rfloor> - 52) (- 1074))"

definition fl :: "real \<Rightarrow> real" where
  "fl x = (if x = 0 then 0 else of_int (round_ties_even (x / quantum x)) * quantum x)"

subsection \<open>The wrapper\<close>

definition MAX_RETRIES :: nat where
  "MAX_RETRIES = 3"

text \<open>\<^verbatim>\<open>String.prototype.includes\<close>: the argument occurs somewhere in the string.\<close>

fun includes_str :: "string \<Rightarrow> string \<Rightarrow> bool" where
  "includes_str [] sub = (sub = [])"
| "includes_str (c # cs) sub = (take (length sub) (c # cs) = sub \<or> includes_str cs sub)"

definition retriable :: "string \<Rightarrow> bool" where
  "retriable e = (includes_str e ''overloaded'' \<or> includes_str e ''UNAVAILABLE'')"

text \<open>
  \<^verbatim>\<open>(Math.pow(2, i) * 1000) + (Math.random() * 1000)\<close>, for the draw \<open>r\<close>: two products and a
  sum, each rounded. (\<^verbatim>\<open>Math.pow(2, i)\<close> is exact for the three values of \<open>i\<close>.)
\<close>

definition backoff :: "nat \<Rightarrow> real \<Rightarrow> real" where
  "backoff i r = fl (fl (2 ^ i * 1000) + fl (r * 1000))"

record 'a retry_result =
  outcome :: "string + 'a"
  attempts :: nat
  delays :: "real list"

function withRetry_loop ::
  "('s \<Rightarrow> (string + 'a) \<times> 's) \<Rightarrow> (nat \<Rightarrow> real) \<Rightarrow> nat \<Rightarrow> 's \<Rightarrow> string option \<Rightarrow>
     nat \<Rightarrow> real list \<Rightarrow> 'a retry_result"
where
  "withRetry_loop apiCall rnd i s lastError n ds =
     (if i < MAX_RETRIES then
        (case apiCall s of
           (Inr v, s') \<Rightarrow> \<lparr>outcome = Inr v, attempts = Suc n, delays = ds\<rparr>
         | (Inl e, s') \<Rightarrow>
             if retriable e then
               withRetry_loop apiCall rnd (Suc i) s' (Some e) (Suc n) (ds @ [backoff i (rnd i)])
             else \<lparr>outcome = Inl e, attempts = Suc n, delays = ds\<rparr>)
      else
        \<lparr>outcome =
           Inl (case lastError of
                  Some e \<Rightarrow> e
                | None \<Rightarrow> ''Error: API call failed after multiple retries.''),
         attempts = n, delays = ds\<rparr>)"
  by pat_completeness auto
termination
  by (relation "measure (\<lambda>(apiCall, rnd, i, s, lastError, n, ds). MAX_RETRIES - i)") auto

definition withRetry ::
  "('s \<Rightarrow> (string + 'a) \<times> 's) \<Rightarrow> (nat \<Rightarrow> real) \<Rightarrow> 's \<Rightarrow> 'a retry_result"
where
  "withRetry apiCall rnd s = withRetry_loop apiCall rnd 0 s None 0 []"

text \<open>
  An operation for concrete runs: its state counts the calls made so far; the first two calls
  throw a 503 error and every later call resolves to 42.
\<close>

definition flaky :: "nat \<Rightarrow> (string + nat) \<times> nat" where
  "flaky k = (if k < 2 then Inl ''Error: 503 The model is overloaded.'' else Inr 42, Suc k)"

text \<open>
  Draws for a concrete run: the largest double below one (\<open>1 - 2 ^ - 53\<close>) in the first
  iteration, zero afterwards.
\<close>

definition extreme_draws :: "nat \<Rightarrow> real" where
  "extreme_draws i = (if i = 0 then 1 - 1 / 2 ^ 53 else 0)"

section \<open>Outbound audio encoding (\<^verbatim>\<open>onaudioprocess\<close> in the voice components)\<close>

text \<open>
  The capture callback sends
  \<^verbatim>\<open>encode(new Uint8Array(new Int16Array(inputData.map(x => x * 32768)).buffer))\<close>.
  \<^verbatim>\<open>inputData\<close> is a \<^verbatim>\<open>Float32Array\<close>; multiplying a sample of magnitude at most one by
  \<open>2 ^ 15\<close> is exact in binary floating point, so a sample is modelled by the real number it
  denotes. The \<^verbatim>\<open>Int16Array\<close> constructor converts each element with ECMAScript's
  \<^verbatim>\<open>ToInt16\<close>: truncation towards zero, then reduction modulo \<open>2 ^ 16\<close> into the signed range.
  The \<^verbatim>\<open>Uint8Array\<close> view reads every element as two bytes, low byte first.
  \<^verbatim>\<open>encode\<close> comes from \<^verbatim>\<open>services/audioUtils\<close>, which is not among the sources; it is a
  parameter.
\<close>

definition js_trunc :: "real \<Rightarrow> int" where
  "js_trunc x = (if 0 \<le> x then \<lfloor>x\<rfloor> else \<lceil>x\<rceil>)"

definition toInt16 :: "real \<Rightarrow> 16 word" where
  "toInt16 x = word_of_int (js_trunc x)"

definition int16_bytes :: "16 word \<Rightarrow> 8 word list" where
  "int16_bytes w = [ucast w, ucast (drop_bit 8 w)]"

definition pcm_bytes :: "real list \<Rightarrow> 8 word list" where
  "pcm_bytes inputData = concat (map int16_bytes (map toInt16 (map (\<lambda>x. x * 32768) inputData)))"

record pcm_blob =
  blob_data :: string
  mimeType :: string

definition onaudioprocess :: "(8 word list \<Rightarrow> string) \<Rightarrow> real list \<Rightarrow> pcm_blob" where
  "onaudioprocess encode inputData =
     \<lparr>blob_data = encode (pcm_bytes inputData), mimeType = ''audio/pcm;rate=16000''\<rparr>"

text \<open>
  The encoder as the specification words it: every sample becomes \<open>round (sample * 32767)\<close>,
  clamped to the 16-bit signed range, serialised little-endian and handed to the transport
  encoding.
\<close>

definition spec_sample :: "real \<Rightarrow> int" where
  "spec_sample x = max (- 32768) (min 32767 (round (x * 32767)))"

definition spec_pcm_bytes :: "real list \<Rightarrow> 8 word list" where
  "spec_pcm_bytes samples = concat (map (\<lambda>x. int16_bytes (word_of_int (spec_sample x))) samples)"

definition spec_encode :: "(8 word list \<Rightarrow> string) \<Rightarrow> real list \<Rightarrow> string" where
  "spec_encode encode samples = encode (spec_pcm_bytes samples)"

section \<open>The voice session (component \<^verbatim>\<open>VoiceAssistant\<close>)\<close>

subsection \<open>Host state and tool calls\<close>

datatype app_view = BOOKING | CHAT | EXPLORE | PAYMENT

text \<open>
  The state of \<^verbatim>\<open>App\<close> that the component reaches through its props: the three booking
  fields, the current view and whether the assistant is shown (\<^verbatim>\<open>onClose\<close> clears it).
  The vehicle is the string the setter is called with.
\<close>

record host_state =
  pickup :: string
  destination :: string
  vehicle :: string
  currentView :: app_view
  isVoiceAssistantOpen :: bool

text \<open>
  The arguments of a function call. The tool declaration types all three parameters as
  strings and each is optional; a missing key destructures to \<^verbatim>\<open>undefined\<close>, here \<open>None\<close>.
\<close>

record ride_args =
  arg_pickup :: "string option"
  arg_destination :: "string option"
  arg_vehicle :: "string option"

record function_call =
  fc_id :: string
  fc_name :: string
  fc_args :: "ride_args option"

record function_response =
  fr_id :: string
  fr_name :: string
  fr_result :: string

text \<open>JavaScript truthiness of a destructured string argument.\<close>

fun truthy :: "string option \<Rightarrow> bool" where
  "truthy None = False"
| "truthy (Some v) = (v \<noteq> [])"

definition controlRide :: "ride_args \<Rightarrow> host_state \<Rightarrow> host_state" where
  "controlRide a h =
     (let h1 = (if truthy (arg_pickup a) then h\<lparr>pickup := the (arg_pickup a)\<rparr> else h);
          h2 = (if truthy (arg_destination a)
                then h1\<lparr>destination := the (arg_destination a)\<rparr> else h1);
          h3 = (if truthy (arg_vehicle a)
                  \<and> the (arg_vehicle a) \<in> set [''BIKE'', ''AUTO'', ''CAR'']
                then h2\<lparr>vehicle := the (arg_vehicle a)\<rparr> else h2)
      in h3\<lparr>currentView := BOOKING\<rparr>)"

subsection \<open>Messages, effects and component state\<close>

text \<open>
  A server message, with the fields the handler reads. \<open>inlineData\<close> is the \<^verbatim>\<open>data\<close> of a
  part's inline data. A field that is missing is \<open>None\<close> (\<open>False\<close> for the two flags); the
  list of function calls of a tool call can be missing too. A transcription is given by its
  text.
\<close>

record part =
  inlineData :: "string option"

record content =
  parts :: "part list option"

record tool_call =
  functionCalls :: "function_call list option"

record server_message =
  inputTranscription :: "string option"
  outputTranscription :: "string option"
  modelTurn :: "content option"
  interrupted :: bool
  turnComplete :: bool
  toolCall :: "tool_call option"

datatype js_exception = TypeError | DecodeError

datatype context_name = InputContext | OutputContext

datatype context_state = Suspended | Running | Closed

text \<open>
  The calls the component makes on the devices, on the source nodes and on the session, in
  the order it makes them. A source node is named by a number; \<open>SourceStart n t d\<close> is
  \<^verbatim>\<open>sourceNode.start(t)\<close> for node \<open>n\<close> holding a buffer of duration \<open>d\<close> seconds.
\<close>

datatype effect =
    TrackStop
  | ContextClose context_name
  | SourceStart nat real real
  | SourceStop nat
  | ProcessorDisconnect
  | SessionClose
  | SendToolResponse function_response

text \<open>
  The React state and the refs of the component. A ref that holds an object or \<^verbatim>\<open>null\<close> is a
  Boolean (true when it holds an object); an audio context ref holds the context's state.
  \<open>sources\<close> is \<^verbatim>\<open>sourcesRef\<close>, a set in insertion order; \<open>nextNode\<close> names the next node that
  \<^verbatim>\<open>createBufferSource\<close> makes.
\<close>

record voice_assistant =
  status :: string
  userTranscription :: string
  assistantResponse :: string
  isListening :: bool
  sessionRef :: bool
  inputAudioContextRef :: "context_state option"
  outputAudioContextRef :: "context_state option"
  streamRef :: bool
  processorRef :: bool
  sources :: "nat list"
  nextStartTime :: real
  nextNode :: nat
  host :: host_state
  effects :: "effect list"

definition initial :: "host_state \<Rightarrow> voice_assistant" where
  "initial h =
     \<lparr>status = ''Initializing...'', userTranscription = [], assistantResponse = [],
      isListening = False, sessionRef = False, inputAudioContextRef = None,
      outputAudioContextRef = None, streamRef = False, processorRef = False, sources = [],
      nextStartTime = 0, nextNode = 0, host = h, effects = []\<rparr>"

subsection \<open>Starting: \<^verbatim>\<open>connectAndListen\<close>\<close>

text \<open>
  \<^verbatim>\<open>connectAndListen\<close> is asynchronous. It awaits the microphone and then the session, so the
  environment decides how far it gets: the microphone request rejects with an error of some
  name, or the stream is acquired and the connection rejects, or the connection opens
  (\<^verbatim>\<open>onopen\<close> runs) and the promise resolves. One \<^verbatim>\<open>catch\<close> block serves both rejections; it
  sets the status from the error's name and does nothing else.
\<close>

datatype start_outcome = MicRejected string | ConnectRejected string | Connected

definition acquire :: "voice_assistant \<Rightarrow> voice_assistant" where
  "acquire s =
     s\<lparr>streamRef := True, inputAudioContextRef := Some Running,
       outputAudioContextRef := Some Running, processorRef := True\<rparr>"

definition start_failed :: "string \<Rightarrow> voice_assistant \<Rightarrow> voice_assistant" where
  "start_failed name s =
     (if name = ''NotFoundError'' \<or> name = ''DevicesNotFoundError'' then
        s\<lparr>status := ''No microphone found. Please connect a microphone and grant permission.''\<rparr>
      else if name = ''NotAllowedError'' \<or> name = ''PermissionDeniedError'' then
        s\<lparr>status :=
            ''Microphone access denied. Please allow permission in your browser settings.''\<rparr>
      else s\<lparr>status := ''Could not start microphone. Please check permissions.''\<rparr>)"

definition onopen :: "voice_assistant \<Rightarrow> voice_assistant" where
  "onopen s = s\<lparr>status := ''Listening...'', isListening := True\<rparr>"

text \<open>
  The function runs in two stretches: up to its first \<^verbatim>\<open>await\<close>, and from there on once the
  environment has answered. Other handlers of the component can run in between.
\<close>

definition connectAndListen_begin :: "voice_assistant \<Rightarrow> voice_assistant" where
  "connectAndListen_begin s = s\<lparr>status := ''Connecting...''\<rparr>"

definition connectAndListen_resume :: "start_outcome \<Rightarrow> voice_assistant \<Rightarrow> voice_assistant" where
  "connectAndListen_resume out s =
     (case out of
        MicRejected name \<Rightarrow> start_failed name s
      | ConnectRejected name \<Rightarrow> start_failed name (acquire s)
      | Connected \<Rightarrow> (onopen (acquire s))\<lparr>sessionRef := True\<rparr>)"

definition connectAndListen :: "start_outcome \<Rightarrow> voice_assistant \<Rightarrow> voice_assistant" where
  "connectAndListen out s = connectAndListen_resume out (connectAndListen_begin s)"

definition onerror :: "voice_assistant \<Rightarrow> voice_assistant" where
  "onerror s = s\<lparr>status := ''Connection error. Please try again.'', isListening := False\<rparr>"

definition onclose :: "voice_assistant \<Rightarrow> voice_assistant" where
  "onclose s = s\<lparr>status := ''Connection closed.'', isListening := False\<rparr>"

subsection \<open>Inbound messages: \<^verbatim>\<open>onmessage\<close>\<close>

definition onmessage_transcription :: "server_message \<Rightarrow> voice_assistant \<Rightarrow> voice_assistant" where
  "onmessage_transcription m s =
     (let s1 = (case inputTranscription m of
                  Some text \<Rightarrow> s\<lparr>userTranscription := text\<rparr> | None \<Rightarrow> s)
      in case outputTranscription m of
           Some text \<Rightarrow> s1\<lparr>assistantResponse := text\<rparr> | None \<Rightarrow> s1)"

text \<open>
  \<^verbatim>\<open>message.serverContent?.modelTurn?.parts[0]?.inlineData.data\<close>: optional chaining stops at a
  missing turn and at a missing first part; indexing missing \<^verbatim>\<open>parts\<close> and reading \<^verbatim>\<open>data\<close> of
  missing \<^verbatim>\<open>inlineData\<close> throw.
\<close>

definition base64Audio :: "server_message \<Rightarrow> js_exception + string option" where
  "base64Audio m =
     (case modelTurn m of
        None \<Rightarrow> Inr None
      | Some c \<Rightarrow>
          (case parts c of
             None \<Rightarrow> Inl TypeError
           | Some [] \<Rightarrow> Inr None
           | Some (p # ps) \<Rightarrow>
               (case inlineData p of None \<Rightarrow> Inl TypeError | Some d \<Rightarrow> Inr (Some d))))"

text \<open>
  Scheduling one buffer. The cursor is first raised to the output clock; then, once the buffer
  is decoded, a new source node is started at the cursor, the cursor moves on by the buffer's
  duration and the node joins the active set.
\<close>

definition raise_cursor :: "real \<Rightarrow> voice_assistant \<Rightarrow> voice_assistant" where
  "raise_cursor now s = s\<lparr>nextStartTime := max (nextStartTime s) now\<rparr>"

definition start_source :: "real \<Rightarrow> voice_assistant \<Rightarrow> voice_assistant" where
  "start_source d s =
     s\<lparr>effects := effects s @ [SourceStart (nextNode s) (nextStartTime s) d],
       nextStartTime := nextStartTime s + d,
       sources := sources s @ [nextNode s],
       nextNode := Suc (nextNode s)\<rparr>"

definition schedule :: "real \<Rightarrow> real \<Rightarrow> voice_assistant \<Rightarrow> voice_assistant" where
  "schedule now d s = start_source d (raise_cursor now s)"

text \<open>The listener for \<^verbatim>\<open>ended\<close> that every started node carries.\<close>

definition ended :: "nat \<Rightarrow> voice_assistant \<Rightarrow> voice_assistant" where
  "ended n s = s\<lparr>sources := removeAll n (sources s)\<rparr>"

text \<open>
  The audio block of the handler. \<^verbatim>\<open>decode\<close> and \<^verbatim>\<open>decodeAudioData\<close> come from
  \<^verbatim>\<open>services/audioUtils\<close>, which is not among the sources: \<open>dec\<close> stands for their composition
  and returns either what they throw or the duration of the decoded buffer. \<open>now\<close> is
  \<^verbatim>\<open>ctx.currentTime\<close>. Nothing in the handler catches an exception, so one that is thrown here
  ends the handler. A handler runs to its end before the next message is handled.
\<close>

definition onmessage_audio ::
  "(string \<Rightarrow> js_exception + real) \<Rightarrow> real \<Rightarrow> server_message \<Rightarrow> voice_assistant \<Rightarrow>
     js_exception option \<times> voice_assistant"
where
  "onmessage_audio dec now m s =
     (case base64Audio m of
        Inl e \<Rightarrow> (Some e, s)
      | Inr b \<Rightarrow>
          if truthy b \<and> outputAudioContextRef s \<noteq> None then
            (case dec (the b) of
               Inl e \<Rightarrow> (Some e, raise_cursor now s)
             | Inr d \<Rightarrow> (None, schedule now d s))
          else (None, s))"

definition onmessage_interrupted :: "server_message \<Rightarrow> voice_assistant \<Rightarrow> voice_assistant" where
  "onmessage_interrupted m s =
     (if interrupted m then
        s\<lparr>effects := effects s @ map SourceStop (sources s), sources := [],
          nextStartTime := 0, assistantResponse := []\<rparr>
      else s)"

definition ok_result :: string where
  "ok_result = ''ok, details have been updated on the user's screen.''"

definition onmessage_functionCall :: "voice_assistant \<Rightarrow> function_call \<Rightarrow> voice_assistant" where
  "onmessage_functionCall s fc =
     (if fc_name fc = ''controlRide'' \<and> fc_args fc \<noteq> None then
        s\<lparr>host := controlRide (the (fc_args fc)) (host s),
          effects := effects s @
            [SendToolResponse
               \<lparr>fr_id = fc_id fc, fr_name = fc_name fc, fr_result = ok_result\<rparr>]\<rparr>
      else s)"

text \<open>
  \<^verbatim>\<open>for (const fc of message.toolCall.functionCalls)\<close>: iterating a missing list throws.
\<close>

definition onmessage_toolCall ::
  "server_message \<Rightarrow> voice_assistant \<Rightarrow> js_exception option \<times> voice_assistant"
where
  "onmessage_toolCall m s =
     (case toolCall m of
        None \<Rightarrow> (None, s)
      | Some tc \<Rightarrow>
          (case functionCalls tc of
             None \<Rightarrow> (Some TypeError, s)
           | Some fcs \<Rightarrow> (None, foldl onmessage_functionCall s fcs)))"

definition onmessage_turnComplete :: "server_message \<Rightarrow> voice_assistant \<Rightarrow> voice_assistant" where
  "onmessage_turnComplete m s = (if turnComplete m then s\<lparr>userTranscription := []\<rparr> else s)"

definition onmessage ::
  "(string \<Rightarrow> js_exception + real) \<Rightarrow> real \<Rightarrow> server_message \<Rightarrow> voice_assistant \<Rightarrow>
     js_exception option \<times> voice_assistant"
where
  "onmessage dec now m s =
     (case onmessage_audio dec now m (onmessage_transcription m s) of
        (Some e, s1) \<Rightarrow> (Some e, s1)
      | (None, s1) \<Rightarrow>
          (case onmessage_toolCall m (onmessage_interrupted m s1) of
             (Some e, s2) \<Rightarrow> (Some e, s2)
           | (None, s2) \<Rightarrow> (None, onmessage_turnComplete m s2)))"

subsection \<open>Stopping: \<^verbatim>\<open>stopListening\<close>\<close>

text \<open>
  Each block of \<^verbatim>\<open>stopListening\<close> is guarded by its ref. The stream, processor and session refs
  are set to \<^verbatim>\<open>null\<close>. A context ref is never reset: it keeps the context, and the guard reads
  the context's \<^verbatim>\<open>state\<close>. When \<^verbatim>\<open>state\<close> turns to \<^verbatim>\<open>closed\<close> after \<^verbatim>\<open>close()\<close> is up to the
  browser: at once, or in a later task. \<open>at_once\<close> says which; in the second case the state
  is unchanged when \<^verbatim>\<open>close()\<close> returns and \<open>statechange\<close> is the later task that sets it. The
  microphone stream has one track. At the end \<^verbatim>\<open>setIsListening(false)\<close> and \<^verbatim>\<open>onClose()\<close> are
  called, whatever the refs held.
\<close>

text \<open>The guard \<^verbatim>\<open>ref.current && ref.current.state !== 'closed'\<close>.\<close>

fun live :: "context_state option \<Rightarrow> bool" where
  "live None = False"
| "live (Some c) = (c \<noteq> Closed)"

definition stop_stream :: "voice_assistant \<Rightarrow> voice_assistant" where
  "stop_stream s =
     (if streamRef s then s\<lparr>effects := effects s @ [TrackStop], streamRef := False\<rparr> else s)"

definition close_input :: "bool \<Rightarrow> voice_assistant \<Rightarrow> voice_assistant" where
  "close_input at_once s =
     (if live (inputAudioContextRef s) then
        s\<lparr>effects := effects s @ [ContextClose InputContext],
          inputAudioContextRef := (if at_once then Some Closed else inputAudioContextRef s)\<rparr>
      else s)"

definition close_output :: "bool \<Rightarrow> voice_assistant \<Rightarrow> voice_assistant" where
  "close_output at_once s =
     (if live (outputAudioContextRef s) then
        s\<lparr>effects := effects s @ [ContextClose OutputContext],
          outputAudioContextRef := (if at_once then Some Closed else outputAudioContextRef s)\<rparr>
      else s)"

definition statechange :: "context_name \<Rightarrow> voice_assistant \<Rightarrow> voice_assistant" where
  "statechange c s =
     (case c of
        InputContext \<Rightarrow>
          (if inputAudioContextRef s = None then s else s\<lparr>inputAudioContextRef := Some Closed\<rparr>)
      | OutputContext \<Rightarrow>
          (if outputAudioContextRef s = None then s
           else s\<lparr>outputAudioContextRef := Some Closed\<rparr>))"

definition stop_sources :: "voice_assistant \<Rightarrow> voice_assistant" where
  "stop_sources s = s\<lparr>effects := effects s @ map SourceStop (sources s), sources := []\<rparr>"

definition disconnect_processor :: "voice_assistant \<Rightarrow> voice_assistant" where
  "disconnect_processor s =
     (if processorRef s then
        s\<lparr>effects := effects s @ [ProcessorDisconnect], processorRef := False\<rparr>
      else s)"

definition close_session :: "voice_assistant \<Rightarrow> voice_assistant" where
  "close_session s =
     (if sessionRef s then s\<lparr>effects := effects s @ [SessionClose], sessionRef := False\<rparr>
      else s)"

definition stopListening :: "bool \<Rightarrow> voice_assistant \<Rightarrow> voice_assistant" where
  "stopListening at_once s =
     (let s1 = close_session (disconnect_processor (stop_sources
                 (close_output at_once (close_input at_once (stop_stream s)))))
      in s1\<lparr>isListening := False, host := (host s1)\<lparr>isVoiceAssistantOpen := False\<rparr>\<rparr>)"

text \<open>How often an effect has happened.\<close>

definition times :: "effect \<Rightarrow> voice_assistant \<Rightarrow> nat" where
  "times e s = count_list (effects s) e"

section \<open>Observations and concrete runs\<close>

text \<open>The three handles of a session: microphone stream, output context, network session.\<close>

definition handles :: "voice_assistant \<Rightarrow> bool \<times> context_state option \<times> bool" where
  "handles s = (streamRef s, outputAudioContextRef s, sessionRef s)"

text \<open>The playback intervals (start, end) of the nodes started so far, in order.\<close>

definition intervals :: "voice_assistant \<Rightarrow> (real \<times> real) list" where
  "intervals s =
     concat (map (\<lambda>e. case e of SourceStart n t d \<Rightarrow> [(t, t + d)] | _ \<Rightarrow> []) (effects s))"

text \<open>Every interval starts where the one before it ends.\<close>

fun back_to_back :: "(real \<times> real) list \<Rightarrow> bool" where
  "back_to_back (a # b # rest) = (snd a = fst b \<and> back_to_back (b # rest))"
| "back_to_back rest = True"

text \<open>The tool responses sent upstream so far, in order.\<close>

definition tool_responses :: "voice_assistant \<Rightarrow> function_response list" where
  "tool_responses s =
     concat (map (\<lambda>e. case e of SendToolResponse r \<Rightarrow> [r] | _ \<Rightarrow> []) (effects s))"

text \<open>The exception, if any, that the audio block throws for a message.\<close>

definition audio_exception ::
  "(string \<Rightarrow> js_exception + real) \<Rightarrow> real \<Rightarrow> server_message \<Rightarrow> voice_assistant \<Rightarrow>
     js_exception option"
where
  "audio_exception dec now m s = fst (onmessage_audio dec now m (onmessage_transcription m s))"

text \<open>The calls the handler acts on, and the response it sends for one of them.\<close>

definition handled :: "function_call \<Rightarrow> bool" where
  "handled fc = (fc_name fc = ''controlRide'' \<and> fc_args fc \<noteq> None)"

definition answer :: "function_call \<Rightarrow> function_response" where
  "answer fc = \<lparr>fr_id = fc_id fc, fr_name = fc_name fc, fr_result = ok_result\<rparr>"

text \<open>
  The bytes of an integer in two's complement, low byte first, said with arithmetic instead
  of bit operations.
\<close>

definition le_bytes :: "int \<Rightarrow> 8 word list" where
  "le_bytes i = [word_of_int (i mod 256), word_of_int (i div 256 mod 256)]"

text \<open>
  Inputs for concrete runs. \<open>host0\<close> is the state \<^verbatim>\<open>App\<close> starts with, the assistant shown.
  \<open>run_decoder\<close> rejects a payload that contains an exclamation mark (not a base64 character)
  and otherwise yields a buffer whose duration is the payload's length. \<open>raw_string\<close> is a
  transport encoding that writes every byte as the character of that code.
\<close>

definition host0 :: host_state where
  "host0 = \<lparr>pickup = [], destination = [], vehicle = ''CAR'', currentView = BOOKING,
     isVoiceAssistantOpen = True\<rparr>"

definition listening :: voice_assistant where
  "listening = connectAndListen Connected (initial host0)"

definition connecting :: voice_assistant where
  "connecting = connectAndListen_begin (initial host0)"

definition run_decoder :: "string \<Rightarrow> js_exception + real" where
  "run_decoder b = (if CHR ''!'' \<in> set b then Inl DecodeError else Inr (real (length b)))"

definition raw_string :: "8 word list \<Rightarrow> string" where
  "raw_string bs = map (\<lambda>b. char_of (unat b)) bs"

definition no_content :: server_message where
  "no_content = \<lparr>inputTranscription = None, outputTranscription = None, modelTurn = None,
     interrupted = False, turnComplete = False, toolCall = None\<rparr>"

definition audio_message :: "string \<Rightarrow> server_message" where
  "audio_message b = no_content\<lparr>modelTurn := Some \<lparr>parts = Some [\<lparr>inlineData = Some b\<rparr>]\<rparr>\<rparr>"

definition tool_message :: "function_call list \<Rightarrow> server_message" where
  "tool_message fcs = no_content\<lparr>toolCall := Some \<lparr>functionCalls = Some fcs\<rparr>\<rparr>"

definition cancel_call :: function_call where
  "cancel_call = \<lparr>fc_id = ''call-1'', fc_name = ''cancelRide'',
     fc_args = Some \<lparr>arg_pickup = None, arg_destination = None, arg_vehicle = None\<rparr>\<rparr>"



definition bike_call :: function_call where
  "bike_call = \<lparr>fc_id = ''call-4'', fc_name = ''controlRide'',
     fc_args = Some \<lparr>arg_pickup = None, arg_destination = None, arg_vehicle = Some ''BIKE''\<rparr>\<rparr>"

section \<open>Theorems\<close>

subsection \<open>Rounding to a double\<close>

lemma round_ties_even_le:
  assumes "y \<le> of_int k"
  shows "round_ties_even y \<le> k"
proof -
  have f: "\<lfloor>y\<rfloor> \<le> k"
    using assms by (simp add: floor_le_iff)
  show ?thesis
  proof (cases "y - of_int \<lfloor>y\<rfloor> < 1 / 2")
    case True
    then show ?thesis using f by (simp add: round_ties_even_def)
  next
    case False
    then have "of_int \<lfloor>y\<rfloor> < y" by linarith
    then have "of_int \<lfloor>y\<rfloor> < (of_int k :: real)" using assms by linarith
    then have "\<lfloor>y\<rfloor> < k" by simp
    then show ?thesis by (simp add: round_ties_even_def Let_def)
  qed
qed

lemma round_ties_even_ge:
  assumes "of_int k \<le> y"
  shows "k \<le> round_ties_even y"
proof -
  have "k \<le> \<lfloor>y\<rfloor>"
    using assms by (simp add: le_floor_iff)
  then show ?thesis by (simp add: round_ties_even_def Let_def)
qed

lemma quantum_pos: "0 < quantum x"
  by (simp add: quantum_def)

lemma quantum_between:
  assumes "2 powi e \<le> \<bar>x\<bar>" "\<bar>x\<bar> < 2 powi (e + 1)"
  shows "quantum x = 2 powi (max (e - 52) (- 1074))"
proof -
  have pos: "0 < \<bar>x\<bar>"
    using assms(1) by (smt (verit) zero_less_power_int)
  have "2 powr (real_of_int e + 1) = (2::real) powi (e + 1)"
    using powr_real_of_int' [of 2 "e + 1"] by simp
  then have "\<lfloor>log 2 \<bar>x\<bar>\<rfloor> = e"
    using assms pos by (simp add: floor_log_eq_powr_iff powr_real_of_int')
  then show ?thesis by (simp add: quantum_def)
qed

text \<open>Below \<open>2 ^ 53\<close> the spacing divides one, so every integer is a multiple of it.\<close>

lemma quantum_divides:
  assumes "0 < x" "x < 2 ^ 53"
  obtains N :: nat where "quantum x * real N = 1"
proof -
  have "log 2 x < 53"
    using assms by (simp add: log_less_iff powr_realpow [of 2 53, simplified])
  then have "\<lfloor>log 2 \<bar>x\<bar>\<rfloor> - 52 \<le> 0"
    using assms by (simp add: floor_le_iff)
  then have g: "max (\<lfloor>log 2 \<bar>x\<bar>\<rfloor> - 52) (- 1074) \<le> 0"
    by simp
  define g where "g = max (\<lfloor>log 2 \<bar>x\<bar>\<rfloor> - 52) (- 1074)"
  have q: "quantum x = 2 powi g" by (simp add: quantum_def g_def)
  have "g \<le> 0" using g by (simp add: g_def)
  then have "(2::real) powi g * real (2 ^ nat (- g)) = 1"
    by (simp add: power_int_def field_simps)
  then show ?thesis using that q by metis
qed

lemma fl_le_int:
  assumes "0 < x" "x < 2 ^ 53" "x \<le> of_int c"
  shows "fl x \<le> of_int c"
proof -
  obtain N :: nat where N: "quantum x * real N = 1"
    using assms(1,2) by (rule quantum_divides)
  have q: "0 < quantum x" by (rule quantum_pos)
  have "x / quantum x = x * real N"
    using N q by (simp add: field_simps)
  also have "\<dots> \<le> of_int c * real N"
    using assms(3) by (simp add: mult_right_mono)
  finally have "x / quantum x \<le> of_int (c * int N)" by simp
  then have "round_ties_even (x / quantum x) \<le> c * int N"
    by (rule round_ties_even_le)
  then have "of_int (round_ties_even (x / quantum x)) * quantum x \<le> of_int (c * int N) * quantum x"
    using q by (simp add: mult_right_mono del: of_int_mult)
  also have "\<dots> = of_int c * (quantum x * real N)" by (simp add: mult_ac)
  also have "\<dots> = of_int c" by (simp add: N)
  finally show ?thesis using assms(1) by (simp add: fl_def)
qed

lemma fl_ge_int:
  assumes "0 < x" "x < 2 ^ 53" "of_int c \<le> x"
  shows "of_int c \<le> fl x"
proof -
  obtain N :: nat where N: "quantum x * real N = 1"
    using assms(1,2) by (rule quantum_divides)
  have q: "0 < quantum x" by (rule quantum_pos)
  have "of_int c * real N \<le> x * real N"
    using assms(3) by (simp add: mult_right_mono)
  also have "\<dots> = x / quantum x"
    using N q by (simp add: field_simps)
  finally have "of_int (c * int N) \<le> x / quantum x" by simp
  then have "c * int N \<le> round_ties_even (x / quantum x)"
    by (rule round_ties_even_ge)
  then have "of_int (c * int N) * quantum x \<le> of_int (round_ties_even (x / quantum x)) * quantum x"
    using q by (simp add: mult_right_mono del: of_int_mult)
  moreover have "of_int (c * int N) * quantum x = of_int c * (quantum x * real N)"
    by (simp add: mult_ac)
  moreover have "of_int c * (quantum x * real N) = of_int c"
    by (simp add: N)
  ultimately have "of_int c \<le> of_int (round_ties_even (x / quantum x)) * quantum x"
    by (simp only:)
  then show ?thesis using assms(1) by (simp add: fl_def)
qed

lemma fl_int:
  assumes "0 \<le> c" "c < 2 ^ 53"
  shows "fl (of_int c) = of_int c"
proof (cases "c = 0")
  case True
  then show ?thesis by (simp add: fl_def)
next
  case False
  then have "0 < (of_int c :: real)" "(of_int c :: real) < 2 ^ 53"
    using assms by simp_all
  then show ?thesis
    using fl_le_int [of "of_int c" c] fl_ge_int [of "of_int c" c] by simp
qed

lemma fl_numeral [simp]: "numeral k < (2 ^ 53 :: int) \<Longrightarrow> fl (numeral k) = numeral k"
  using fl_int [of "numeral k"] by simp

lemma jitter_range:
  assumes "0 \<le> r" "r < 1"
  shows "0 \<le> fl (r * 1000) \<and> fl (r * 1000) \<le> 1000"
proof (cases "r = 0")
  case True
  then show ?thesis by (simp add: fl_def)
next
  case False
  then have "0 < r * 1000" "r * 1000 < 2 ^ 53" "r * 1000 \<le> of_int 1000" "of_int 0 \<le> r * 1000"
    using assms by simp_all
  then show ?thesis
    using fl_le_int [of "r * 1000" 1000] fl_ge_int [of "r * 1000" 0] by simp
qed

lemma backoff_bounds:
  assumes "0 \<le> r0" "r0 < 1" "0 \<le> r1" "r1 < 1"
  shows "backoff 0 r0 \<le> 2000" "2000 \<le> backoff 1 r1"
proof -
  have a: "0 \<le> fl (r0 * 1000) \<and> fl (r0 * 1000) \<le> 1000"
    and b: "0 \<le> fl (r1 * 1000) \<and> fl (r1 * 1000) \<le> 1000"
    using assms by (simp_all add: jitter_range)
  show "backoff 0 r0 \<le> 2000"
    using a fl_le_int [of "1000 + fl (r0 * 1000)" 2000] by (simp add: backoff_def)
  show "2000 \<le> backoff 1 r1"
    using b fl_ge_int [of "2000 + fl (r1 * 1000)" 2000] by (simp add: backoff_def)
qed

lemma round_ties_even_split:
  assumes "0 \<le> f" "f < 1"
  shows "round_ties_even (of_int n + f)
    = (if f < 1 / 2 then n else if 1 / 2 < f then n + 1 else if even n then n else n + 1)"
proof -
  have "\<lfloor>of_int n + f\<rfloor> = n"
    using assms by (simp add: floor_unique)
  then show ?thesis
    by (simp add: round_ties_even_def Let_def)
qed


subsection \<open>The retry wrapper\<close>

lemma backoff_extreme: "backoff 0 (1 - 1 / 2 ^ 53) = 2000"
proof -
  define x :: real where "x = (1 - 1 / 2 ^ 53) * 1000"
  define y :: real where "y = 1000 + 8796093022207999 * 2 powi (- 43)"
  have "2 powi 9 \<le> \<bar>x\<bar>" "\<bar>x\<bar> < 2 powi (9 + 1)"
    by (simp_all add: x_def)
  then have qx: "quantum x = 2 powi (- 43)"
    using quantum_between [of 9 x] by simp
  have "x / 2 powi (- 43) = 8796093022207999 + 3 / 128"
    by (simp add: x_def power_int_minus field_simps)
  moreover have "round_ties_even (8796093022207999 + 3 / 128) = 8796093022207999"
    using round_ties_even_split [of "3 / 128" 8796093022207999] by simp
  ultimately have "round_ties_even (x / quantum x) = 8796093022207999"
    unfolding qx by (simp only:)
  moreover have "x \<noteq> 0"
    by (simp add: x_def)
  ultimately have fx: "fl x = 8796093022207999 * 2 powi (- 43)"
    by (simp add: fl_def qx)
  have "2 powi 10 \<le> \<bar>y\<bar>" "\<bar>y\<bar> < 2 powi (10 + 1)"
    by (simp_all add: y_def power_int_minus)
  then have qy: "quantum y = 2 powi (- 42)"
    using quantum_between [of 10 y] by simp
  have "y / 2 powi (- 42) = 8796093022207999 + 1 / 2"
    by (simp add: y_def power_int_minus field_simps)
  moreover have "round_ties_even (8796093022207999 + 1 / 2) = 8796093022208000"
    using round_ties_even_split [of "1 / 2" 8796093022207999] by simp
  ultimately have "round_ties_even (y / quantum y) = 8796093022208000"
    unfolding qy by (simp only:)
  moreover have "y \<noteq> 0"
    by (simp add: y_def power_int_minus)
  ultimately have "fl y = 8796093022208000 * 2 powi (- 42)"
    by (simp add: fl_def qy)
  then have "fl y = 2000"
    by (simp add: power_int_minus)
  moreover have "backoff 0 (1 - 1 / 2 ^ 53) = fl (1000 + fl x)"
    by (simp add: backoff_def x_def)
  ultimately show ?thesis
    by (simp add: fx y_def)
qed

lemma backoff_zero: "backoff 1 0 = 2000"
  by (simp add: backoff_def fl_def [of 0])

lemma withRetry_run:
  assumes "apiCall s0 = (Inl e1, s1)" "retriable e1" "apiCall s1 = (Inl e2, s2)" "retriable e2"
    and "apiCall s2 = (Inr v, s3)"
  shows "withRetry apiCall rnd s0
    = \<lparr>outcome = Inr v, attempts = 3, delays = [backoff 0 (rnd 0), backoff 1 (rnd 1)]\<rparr>"
  using assms by (simp add: withRetry_def MAX_RETRIES_def numeral_3_eq_3)

lemma flaky_calls:
  "flaky 0 = (Inl ''Error: 503 The model is overloaded.'', 1)"
  "flaky 1 = (Inl ''Error: 503 The model is overloaded.'', 2)"
  "flaky 2 = (Inr 42, 3)"
  "retriable ''Error: 503 The model is overloaded.''"
  by (simp_all add: flaky_def retriable_def)

text \<open>
  C4, as stated, fails. The operation throws a 503 error twice and then resolves, the first
  draw of \<^verbatim>\<open>Math.random()\<close> is the largest double below one and the second draw is zero. The
  first delay is \<open>1000 + 1000 * (1 - 2 ^ - 53)\<close> rounded to a double, which is 2000; the second
  is \<open>2000 + 0\<close>. The two delays are equal, not strictly increasing.
\<close>

theorem backoff_tie_counterexample:
  "delays (withRetry flaky extreme_draws 0) = [2000, 2000]
   \<and> \<not> backoff 0 (extreme_draws 0) < backoff 1 (extreme_draws 1)"
proof -
  have "extreme_draws 0 = 1 - 1 / 2 ^ 53" "extreme_draws 1 = 0"
    by (simp_all add: extreme_draws_def)
  then have "backoff 0 (extreme_draws 0) = 2000" "backoff 1 (extreme_draws 1) = 2000"
    by (simp_all only: backoff_extreme backoff_zero)
  then show ?thesis
    by (simp add: withRetry_run [OF flaky_calls(1) flaky_calls(4) flaky_calls(2) flaky_calls(4)
          flaky_calls(3)])
qed

text \<open>
  C4, amended. An operation that throws a retriable (overload or unavailability) error on its
  first two calls and resolves on the third: \<^verbatim>\<open>withRetry\<close> returns the resolved value, has called
  the operation exactly three times, and has waited twice, first \<open>1000 * 2 ^ 0 + jitter\<close> and
  then \<open>1000 * 2 ^ 1 + jitter\<close> milliseconds (attempt index from zero; the jitter is
  \<^verbatim>\<open>Math.random() * 1000\<close> with \<^verbatim>\<open>Math.random()\<close> in \<open>[0, 1)\<close>; every operation rounded to a
  double). For every pair of draws the first wait is at most 2000 and the second at least
  2000: the waits never decrease, and the second is strictly longer unless both are 2000.
\<close>

theorem withRetry_two_transient_then_success:
  assumes first: "apiCall s0 = (Inl e1, s1)" and t1: "retriable e1"
    and second: "apiCall s1 = (Inl e2, s2)" and t2: "retriable e2"
    and third: "apiCall s2 = (Inr v, s3)"
    and rnd: "\<forall>i. 0 \<le> rnd i \<and> rnd i < 1"
  shows "outcome (withRetry apiCall rnd s0) = Inr v
    \<and> attempts (withRetry apiCall rnd s0) = 3
    \<and> delays (withRetry apiCall rnd s0)
        = [fl (fl (2 ^ 0 * 1000) + fl (rnd 0 * 1000)), fl (fl (2 ^ 1 * 1000) + fl (rnd 1 * 1000))]
    \<and> fl (fl (2 ^ 0 * 1000) + fl (rnd 0 * 1000)) \<le> 2000
    \<and> 2000 \<le> fl (fl (2 ^ 1 * 1000) + fl (rnd 1 * 1000))
    \<and> fl (fl (2 ^ 0 * 1000) + fl (rnd 0 * 1000)) \<le> fl (fl (2 ^ 1 * 1000) + fl (rnd 1 * 1000))
    \<and> (fl (fl (2 ^ 0 * 1000) + fl (rnd 0 * 1000)) < fl (fl (2 ^ 1 * 1000) + fl (rnd 1 * 1000))
        \<or> fl (fl (2 ^ 0 * 1000) + fl (rnd 0 * 1000)) = 2000
          \<and> fl (fl (2 ^ 1 * 1000) + fl (rnd 1 * 1000)) = 2000)"
proof -
  have run: "withRetry apiCall rnd s0
      = \<lparr>outcome = Inr v, attempts = 3, delays = [backoff 0 (rnd 0), backoff 1 (rnd 1)]\<rparr>"
    using first t1 second t2 third by (rule withRetry_run)
  have draws: "0 \<le> rnd 0" "rnd 0 < 1" "0 \<le> rnd 1" "rnd 1 < 1"
    using rnd by auto
  have "backoff 0 (rnd 0) \<le> 2000" "2000 \<le> backoff 1 (rnd 1)"
    by (rule backoff_bounds [OF draws])+
  then have "backoff 0 (rnd 0) \<le> 2000 \<and> 2000 \<le> backoff 1 (rnd 1)
      \<and> backoff 0 (rnd 0) \<le> backoff 1 (rnd 1)
      \<and> (backoff 0 (rnd 0) < backoff 1 (rnd 1)
          \<or> backoff 0 (rnd 0) = 2000 \<and> backoff 1 (rnd 1) = 2000)"
    by linarith
  then show ?thesis
    unfolding run backoff_def by simp
qed

theorem withRetry_two_transient_then_success_witness:
  "outcome (withRetry flaky (\<lambda>i. 1 / 2) 0) = Inr 42
    \<and> attempts (withRetry flaky (\<lambda>i. 1 / 2) 0) = 3
    \<and> delays (withRetry flaky (\<lambda>i. 1 / 2) 0) = [1500, 2500]"
proof -
  have j: "\<forall>i::nat. (0::real) \<le> 1 / 2 \<and> (1::real) / 2 < 1"
    by simp
  show ?thesis
    using withRetry_two_transient_then_success [OF flaky_calls(1) flaky_calls(4) flaky_calls(2)
        flaky_calls(4) flaky_calls(3) j]
    by simp
qed

subsection \<open>Playback scheduling\<close>

lemma schedule_effects:
  "effects (schedule now d s)
     = effects s @ [SourceStart (nextNode s) (max (nextStartTime s) now) d]"
  by (simp add: schedule_def start_source_def raise_cursor_def)

lemma schedule_cursor: "nextStartTime (schedule now d s) = max (nextStartTime s) now + d"
  by (simp add: schedule_def start_source_def raise_cursor_def)

lemma schedule_sources: "sources (schedule now d s) = sources s @ [nextNode s]"
  by (simp add: schedule_def start_source_def raise_cursor_def)

lemma intervals_schedule:
  "intervals (schedule now d s)
     = intervals s @ [(max (nextStartTime s) now, max (nextStartTime s) now + d)]"
  by (simp add: intervals_def schedule_effects)

lemma intervals_initial: "intervals (initial h) = []"
  by (simp add: intervals_def initial_def)

lemma cursor_initial: "nextStartTime (initial h) = 0"
  by (simp add: initial_def)

text \<open>An audio frame that decodes is scheduled; this is the only use of \<open>schedule\<close>.\<close>

lemma onmessage_audio_schedules:
  assumes "base64Audio m = Inr (Some b)" "b \<noteq> []" "outputAudioContextRef s \<noteq> None"
    and "dec b = Inr d"
  shows "onmessage_audio dec now m s = (None, schedule now d s)"
  using assms by (simp add: onmessage_audio_def)

text \<open>
  C2, as stated, fails. Three buffers of one second each are scheduled from the initial state
  while the output clock reads 0, 0 and 5 seconds. The first two play back to back; the third
  is scheduled after the second has finished and starts at the clock's 5, three seconds after
  the second ended at 2. The intervals are not back to back.
\<close>

theorem schedule_gap_counterexample:
  "intervals (schedule 5 1 (schedule 0 1 (schedule 0 1 (initial host0))))
     = [(0, 1), (1, 2), (5, 6)]
   \<and> \<not> back_to_back (intervals (schedule 5 1 (schedule 0 1 (schedule 0 1 (initial host0)))))"
  by (simp add: intervals_schedule schedule_cursor intervals_initial cursor_initial)

text \<open>
  C2, amended. Scheduling a buffer of duration \<open>d\<close> when the output clock reads \<open>now\<close> starts
  it at the maximum of the cursor and \<open>now\<close> and leaves the cursor at that start plus \<open>d\<close>.
  For three buffers of non-negative durations \<open>da\<close>, \<open>db\<close>, \<open>dc\<close> scheduled in that order at
  clock readings \<open>ta\<close>, \<open>tb\<close>, \<open>tc\<close> with nothing in between, the starts \<open>sa\<close>, \<open>sb\<close>, \<open>sc\<close>
  are non-decreasing, no buffer starts before the one before it has ended, and the gap before
  a buffer is the time by which the clock had passed the end of the one before it: zero when
  the clock had not passed it, positive otherwise.
\<close>

theorem schedule_three_buffers:
  assumes "0 \<le> da" "0 \<le> db" "0 \<le> dc"
    and "sa = max (nextStartTime s) ta"
    and "sb = max (sa + da) tb"
    and "sc = max (sb + db) tc"
  shows "effects (schedule ta da s) = effects s @ [SourceStart (nextNode s) sa da]
    \<and> nextStartTime (schedule ta da s) = sa + da
    \<and> intervals (schedule tc dc (schedule tb db (schedule ta da s)))
        = intervals s @ [(sa, sa + da), (sb, sb + db), (sc, sc + dc)]
    \<and> nextStartTime (schedule tc dc (schedule tb db (schedule ta da s))) = sc + dc
    \<and> sa \<le> sb \<and> sb \<le> sc
    \<and> sa + da \<le> sb \<and> sb + db \<le> sc
    \<and> sb - (sa + da) = max 0 (tb - (sa + da))
    \<and> sc - (sb + db) = max 0 (tc - (sb + db))"
proof -
  have order: "sa \<le> sb \<and> sb \<le> sc \<and> sa + da \<le> sb \<and> sb + db \<le> sc
      \<and> sb - (sa + da) = max 0 (tb - (sa + da)) \<and> sc - (sb + db) = max 0 (tc - (sb + db))"
    using assms by linarith
  have run: "intervals (schedule tc dc (schedule tb db (schedule ta da s)))
      = intervals s @ [(sa, sa + da), (sb, sb + db), (sc, sc + dc)]"
    using assms by (simp add: intervals_schedule schedule_cursor)
  have cursor: "nextStartTime (schedule tc dc (schedule tb db (schedule ta da s))) = sc + dc"
    using assms by (simp add: schedule_cursor)
  have one: "effects (schedule ta da s) = effects s @ [SourceStart (nextNode s) sa da]
      \<and> nextStartTime (schedule ta da s) = sa + da"
    using assms by (simp add: schedule_effects schedule_cursor)
  from one run cursor order show ?thesis by simp
qed

theorem schedule_three_buffers_witness:
  "intervals (schedule 1 2 (schedule 1 2 (schedule 1 2 (initial host0))))
     = [(1, 3), (3, 5), (5, 7)]
   \<and> nextStartTime (schedule 1 2 (schedule 1 2 (schedule 1 2 (initial host0)))) = 7"
  using schedule_three_buffers [where s = "initial host0" and ta = 1 and tb = 1 and tc = 1
      and da = 2 and db = 2 and dc = 2 and sa = 1 and sb = 3 and sc = 5]
  by (simp add: intervals_initial cursor_initial)

subsection \<open>Blocks of the message handler\<close>

lemma listening_fields:
  "status listening = ''Listening...''" "sources listening = []" "effects listening = []"
  "nextStartTime listening = 0" "nextNode listening = 0" "host listening = host0"
  "streamRef listening = True" "sessionRef listening = True"
  "inputAudioContextRef listening = Some Running"
  "outputAudioContextRef listening = Some Running"
  "userTranscription listening = []" "assistantResponse listening = []"
  by (simp_all add: listening_def connectAndListen_def connectAndListen_begin_def
      connectAndListen_resume_def onopen_def acquire_def initial_def)

lemma transcription_keeps:
  "status (onmessage_transcription m s) = status s"
  "isListening (onmessage_transcription m s) = isListening s"
  "sources (onmessage_transcription m s) = sources s"
  "effects (onmessage_transcription m s) = effects s"
  "host (onmessage_transcription m s) = host s"
  "outputAudioContextRef (onmessage_transcription m s) = outputAudioContextRef s"
  "streamRef (onmessage_transcription m s) = streamRef s"
  "sessionRef (onmessage_transcription m s) = sessionRef s"
  "nextStartTime (onmessage_transcription m s) = nextStartTime s"
  by (simp_all add: onmessage_transcription_def Let_def split: option.splits)

lemma transcription_text:
  "userTranscription (onmessage_transcription m s)
     = (case inputTranscription m of Some t \<Rightarrow> t | None \<Rightarrow> userTranscription s)"
  "assistantResponse (onmessage_transcription m s)
     = (case outputTranscription m of Some t \<Rightarrow> t | None \<Rightarrow> assistantResponse s)"
  by (simp_all add: onmessage_transcription_def Let_def split: option.splits)

lemma audio_sources_grow:
  "onmessage_audio dec now m s = (r, s1) \<Longrightarrow> set (sources s) \<subseteq> set (sources s1)"
  by (auto simp add: onmessage_audio_def schedule_sources raise_cursor_def
      split: sum.splits if_splits)

lemma audio_keeps_text:
  "onmessage_audio dec now m s = (r, s1) \<Longrightarrow>
     userTranscription s1 = userTranscription s \<and> assistantResponse s1 = assistantResponse s"
  by (auto simp add: onmessage_audio_def schedule_def start_source_def raise_cursor_def
      split: sum.splits if_splits)

lemma audio_keeps_responses:
  "onmessage_audio dec now m s = (r, s1) \<Longrightarrow> tool_responses s1 = tool_responses s"
  by (auto simp add: onmessage_audio_def schedule_def start_source_def raise_cursor_def
      tool_responses_def split: sum.splits if_splits)

lemma interrupted_block:
  assumes "interrupted m"
  shows "sources (onmessage_interrupted m s) = []"
    and "nextStartTime (onmessage_interrupted m s) = 0"
    and "assistantResponse (onmessage_interrupted m s) = []"
    and "effects (onmessage_interrupted m s) = effects s @ map SourceStop (sources s)"
  using assms by (simp_all add: onmessage_interrupted_def)

lemma interrupted_keeps:
  "userTranscription (onmessage_interrupted m s) = userTranscription s"
  "assistantResponse (onmessage_interrupted m s)
     = (if interrupted m then [] else assistantResponse s)"
  "tool_responses (onmessage_interrupted m s) = tool_responses s"
  by (simp_all add: onmessage_interrupted_def tool_responses_def)

lemma functionCall_keeps:
  "sources (onmessage_functionCall s fc) = sources s"
  "nextStartTime (onmessage_functionCall s fc) = nextStartTime s"
  "assistantResponse (onmessage_functionCall s fc) = assistantResponse s"
  "userTranscription (onmessage_functionCall s fc) = userTranscription s"
  by (simp_all add: onmessage_functionCall_def)

lemma foldl_functionCall_keeps:
  "sources (foldl onmessage_functionCall s fcs) = sources s
   \<and> nextStartTime (foldl onmessage_functionCall s fcs) = nextStartTime s
   \<and> assistantResponse (foldl onmessage_functionCall s fcs) = assistantResponse s
   \<and> userTranscription (foldl onmessage_functionCall s fcs) = userTranscription s
   \<and> set (effects s) \<subseteq> set (effects (foldl onmessage_functionCall s fcs))"
proof (induction fcs arbitrary: s)
  case Nil
  show ?case by simp
next
  case (Cons fc fcs)
  have "set (effects s) \<subseteq> set (effects (onmessage_functionCall s fc))"
    by (auto simp add: onmessage_functionCall_def)
  with Cons [of "onmessage_functionCall s fc"] show ?case
    by (simp add: functionCall_keeps) blast
qed

lemma toolCall_keeps:
  "sources (snd (onmessage_toolCall m s)) = sources s"
  "nextStartTime (snd (onmessage_toolCall m s)) = nextStartTime s"
  "assistantResponse (snd (onmessage_toolCall m s)) = assistantResponse s"
  "userTranscription (snd (onmessage_toolCall m s)) = userTranscription s"
  "set (effects s) \<subseteq> set (effects (snd (onmessage_toolCall m s)))"
  using foldl_functionCall_keeps [of s]
  by (auto simp add: onmessage_toolCall_def split: option.splits)

lemma turnComplete_keeps:
  "sources (onmessage_turnComplete m s) = sources s"
  "nextStartTime (onmessage_turnComplete m s) = nextStartTime s"
  "assistantResponse (onmessage_turnComplete m s) = assistantResponse s"
  "effects (onmessage_turnComplete m s) = effects s"
  "tool_responses (onmessage_turnComplete m s) = tool_responses s"
  by (simp_all add: onmessage_turnComplete_def tool_responses_def)

text \<open>The three ways a run of the handler can end.\<close>

lemma onmessage_audio_throws:
  assumes "onmessage_audio dec now m (onmessage_transcription m s) = (Some e, s1)"
  shows "onmessage dec now m s = (Some e, s1)"
  using assms by (simp add: onmessage_def)

lemma onmessage_toolCall_throws:
  assumes "onmessage_audio dec now m (onmessage_transcription m s) = (None, s1)"
    and "onmessage_toolCall m (onmessage_interrupted m s1) = (Some e, s2)"
  shows "onmessage dec now m s = (Some e, s2)"
  using assms by (simp add: onmessage_def)

lemma onmessage_runs_through:
  assumes "onmessage_audio dec now m (onmessage_transcription m s) = (None, s1)"
    and "onmessage_toolCall m (onmessage_interrupted m s1) = (None, s2)"
  shows "onmessage dec now m s = (None, onmessage_turnComplete m s2)"
  using assms by (simp add: onmessage_def)

text \<open>A run of the handler that does not throw has gone through all of its blocks.\<close>

lemma onmessage_completes:
  assumes "onmessage dec now m s = (None, s')"
  obtains s1 where "onmessage_audio dec now m (onmessage_transcription m s) = (None, s1)"
    and "s' = onmessage_turnComplete m (snd (onmessage_toolCall m (onmessage_interrupted m s1)))"
  using assms by (auto simp add: onmessage_def split: prod.splits option.splits)

lemma onmessage_no_content:
  "onmessage dec now (no_content\<lparr>interrupted := i, turnComplete := c\<rparr>) s
     = (None, onmessage_turnComplete (no_content\<lparr>interrupted := i, turnComplete := c\<rparr>)
         (onmessage_interrupted (no_content\<lparr>interrupted := i, turnComplete := c\<rparr>) s))"
  by (simp add: onmessage_def onmessage_audio_def base64Audio_def no_content_def
      onmessage_transcription_def onmessage_toolCall_def)

subsection \<open>Interruption\<close>

text \<open>
  C3, as stated, fails. A buffer is playing, the output clock reads 5 seconds and a message
  flagged \<^verbatim>\<open>interrupted\<close> arrives: the cursor is afterwards 0, not the clock's 5.
\<close>

theorem interrupt_cursor_counterexample:
  "nextStartTime (snd (onmessage run_decoder 5 (no_content\<lparr>interrupted := True\<rparr>)
      (schedule 3 2 listening))) = 0
   \<and> nextStartTime (snd (onmessage run_decoder 5 (no_content\<lparr>interrupted := True\<rparr>)
      (schedule 3 2 listening))) \<noteq> 5"
  using onmessage_no_content [where dec = run_decoder and now = 5 and i = True and c = False
      and s = "schedule 3 2 listening"]
  by (simp add: no_content_def onmessage_interrupted_def onmessage_turnComplete_def)

text \<open>
  C3, amended. When a message flagged \<^verbatim>\<open>interrupted\<close> has been handled, every node that was
  in the active set has been stopped, the active set is empty and the cursor is 0 (not the
  output clock's reading). The output clock never reads below 0, so the next buffer that is
  scheduled starts at the clock's reading, not after audio queued before the interruption.
\<close>

theorem interrupt_stops_and_rewinds:
  assumes run: "onmessage dec now m s = (None, s')" and int: "interrupted m"
    and clock: "0 \<le> later"
  shows "sources s' = []
    \<and> (\<forall>n \<in> set (sources s). SourceStop n \<in> set (effects s'))
    \<and> nextStartTime s' = 0
    \<and> effects (schedule later d s') = effects s' @ [SourceStart (nextNode s') later d]"
proof -
  obtain s1 where audio: "onmessage_audio dec now m (onmessage_transcription m s) = (None, s1)"
    and s': "s' = onmessage_turnComplete m
      (snd (onmessage_toolCall m (onmessage_interrupted m s1)))"
    using run by (rule onmessage_completes)
  have grow: "set (sources s) \<subseteq> set (sources s1)"
    using audio_sources_grow [OF audio] by (simp add: transcription_keeps)
  have empty: "sources s' = []"
    by (simp add: s' turnComplete_keeps toolCall_keeps interrupted_block [OF int])
  have cursor: "nextStartTime s' = 0"
    by (simp add: s' turnComplete_keeps toolCall_keeps interrupted_block [OF int])
  have "set (map SourceStop (sources s1)) \<subseteq> set (effects (onmessage_interrupted m s1))"
    by (simp add: interrupted_block [OF int])
  also have "\<dots> \<subseteq> set (effects s')"
    unfolding s' turnComplete_keeps by (rule toolCall_keeps)
  finally have stopped: "\<forall>n \<in> set (sources s). SourceStop n \<in> set (effects s')"
    using grow by auto
  have next_start: "effects (schedule later d s') = effects s' @ [SourceStart (nextNode s') later d]"
    using clock by (simp add: schedule_effects cursor)
  from empty stopped cursor next_start show ?thesis by blast
qed

theorem interrupt_stops_and_rewinds_witness:
  "sources (snd (onmessage run_decoder 5 (no_content\<lparr>interrupted := True\<rparr>)
      (schedule 3 2 listening))) = []
   \<and> SourceStop 0 \<in> set (effects (snd (onmessage run_decoder 5
      (no_content\<lparr>interrupted := True\<rparr>) (schedule 3 2 listening))))
   \<and> intervals (schedule 6 1 (snd (onmessage run_decoder 5
      (no_content\<lparr>interrupted := True\<rparr>) (schedule 3 2 listening)))) = [(3, 5), (6, 7)]"
proof -
  let ?m = "no_content\<lparr>interrupted := True\<rparr>"
  let ?s = "schedule 3 2 listening"
  let ?s' = "snd (onmessage run_decoder 5 ?m ?s)"
  have run: "onmessage run_decoder 5 ?m ?s = (None, ?s')"
    using onmessage_no_content [where dec = run_decoder and now = 5 and i = True and c = False
        and s = ?s] by (simp add: no_content_def)
  have int: "interrupted ?m"
    by simp
  have srcs: "sources ?s = [0]"
    by (simp add: schedule_sources listening_fields)
  have before: "intervals ?s' = [(3, 5)]"
    using onmessage_no_content [where dec = run_decoder and now = 5 and i = True and c = False
        and s = ?s]
    by (simp add: no_content_def onmessage_interrupted_def onmessage_turnComplete_def
        intervals_def schedule_effects listening_fields)
  have after: "intervals (schedule 6 1 ?s') = intervals ?s' @ [(6, 7)]"
    using interrupt_stops_and_rewinds [OF run int, of 6 1] by (simp add: intervals_def)
  show ?thesis
    using interrupt_stops_and_rewinds [OF run int, of 6 1] srcs before after by simp
qed

subsection \<open>Tool calls\<close>

lemma responses_listening: "tool_responses listening = []"
  by (simp add: tool_responses_def listening_fields)

lemma functionCall_responses:
  "tool_responses (onmessage_functionCall s fc)
     = tool_responses s @ (if handled fc then [answer fc] else [])"
  by (simp add: tool_responses_def onmessage_functionCall_def handled_def answer_def)

lemma foldl_functionCall_responses:
  "tool_responses (foldl onmessage_functionCall s fcs)
     = tool_responses s @ map answer (filter handled fcs)"
  by (induction fcs arbitrary: s) (simp_all add: functionCall_responses)

lemma toolCall_with_calls:
  assumes "toolCall m = Some tc" "functionCalls tc = Some fcs"
  shows "onmessage_toolCall m s = (None, foldl onmessage_functionCall s fcs)"
  using assms by (simp add: onmessage_toolCall_def)

lemma toolCall_without_calls:
  assumes "toolCall m = Some tc" "functionCalls tc = None"
  shows "onmessage_toolCall m s = (Some TypeError, s)"
  using assms by (simp add: onmessage_toolCall_def)

lemma transcription_keeps_responses:
  "tool_responses (onmessage_transcription m s) = tool_responses s"
  by (simp add: tool_responses_def transcription_keeps)

text \<open>A run of the handler that throws has sent no response.\<close>

lemma onmessage_throws_silent:
  assumes "fst (onmessage dec now m s) \<noteq> None"
  shows "tool_responses (snd (onmessage dec now m s)) = tool_responses s"
proof -
  obtain r1 s1 where audio: "onmessage_audio dec now m (onmessage_transcription m s) = (r1, s1)"
    by force
  have s1: "tool_responses s1 = tool_responses s"
    using audio_keeps_responses [OF audio] by (simp add: transcription_keeps_responses)
  show ?thesis
  proof (cases r1)
    case (Some e)
    then show ?thesis
      using onmessage_audio_throws [of dec now m s e s1] audio s1 by simp
  next
    case None
    obtain r2 s2 where tool: "onmessage_toolCall m (onmessage_interrupted m s1) = (r2, s2)"
      by force
    show ?thesis
    proof (cases r2)
      case (Some e)
      then have "s2 = onmessage_interrupted m s1"
        using tool by (auto simp add: onmessage_toolCall_def split: option.splits)
      then show ?thesis
        using onmessage_toolCall_throws [of dec now m s s1 e s2] audio tool None Some s1
        by (simp add: interrupted_keeps)
    next
      case r2: None
      then show ?thesis
        using onmessage_runs_through [of dec now m s s1 s2] audio tool None assms by simp
    qed
  qed
qed

text \<open>A run of the handler that goes through has answered the calls of the message.\<close>

lemma onmessage_answers:
  assumes "toolCall m = Some tc" "functionCalls tc = Some fcs"
    and "fst (onmessage dec now m s) = None"
  shows "tool_responses (snd (onmessage dec now m s))
    = tool_responses s @ map answer (filter handled fcs)"
proof -
  have run: "onmessage dec now m s = (None, snd (onmessage dec now m s))"
    using assms(3) by (simp add: prod_eq_iff)
  obtain s1 where audio: "onmessage_audio dec now m (onmessage_transcription m s) = (None, s1)"
    and s': "snd (onmessage dec now m s) = onmessage_turnComplete m
      (snd (onmessage_toolCall m (onmessage_interrupted m s1)))"
    using run by (rule onmessage_completes)
  have "tool_responses (onmessage_interrupted m s1) = tool_responses s"
    using audio_keeps_responses [OF audio]
    by (simp add: interrupted_keeps transcription_keeps_responses)
  then show ?thesis
    unfolding s' turnComplete_keeps toolCall_with_calls [OF assms(1,2)]
    by (simp add: foldl_functionCall_responses)
qed

lemma onmessage_without_calls:
  assumes "toolCall m = Some tc" "functionCalls tc = None"
    and "audio_exception dec now m s = None"
  shows "fst (onmessage dec now m s) = Some TypeError"
proof -
  obtain s1 where "onmessage_audio dec now m (onmessage_transcription m s) = (None, s1)"
    using assms(3) by (auto simp add: audio_exception_def prod_eq_iff)
  then show ?thesis
    using onmessage_toolCall_throws [of dec now m s s1 TypeError "onmessage_interrupted m s1"]
      toolCall_without_calls [OF assms(1,2)]
    by simp
qed

text \<open>
  C5, as stated, fails. A function call named \<^verbatim>\<open>cancelRide\<close>, which is not the registered
  \<^verbatim>\<open>controlRide\<close>, reaches a listening session: the handler sends no response for it, neither an
  \<^verbatim>\<open>unsupported\<close> error nor anything else, and leaves the whole state as it was.
\<close>

theorem unknown_tool_counterexample:
  "tool_responses (onmessage_functionCall listening cancel_call) = []
   \<and> onmessage_functionCall listening cancel_call = listening
   \<and> onmessage run_decoder 0 (tool_message [cancel_call]) listening = (None, listening)"
proof -
  have skip: "onmessage_functionCall listening cancel_call = listening"
    by (simp add: cancel_call_def onmessage_functionCall_def)
  have "onmessage run_decoder 0 (tool_message [cancel_call]) listening = (None, listening)"
    by (simp add: onmessage_def onmessage_audio_def base64Audio_def no_content_def
        tool_message_def onmessage_transcription_def onmessage_interrupted_def
        onmessage_toolCall_def onmessage_turnComplete_def skip)
  then show ?thesis
    by (simp add: skip responses_listening)
qed

text \<open>
  C5, amended. A function call whose name is not \<^verbatim>\<open>controlRide\<close>, or that carries no
  arguments, is skipped: no response is sent for it and nothing changes. A \<^verbatim>\<open>controlRide\<close> call
  with arguments is answered by exactly one response, which repeats the call's id and name and
  reports success. Going through the function calls of a tool call throws nothing. When the
  handler of a message runs to its end, the message's function calls have been answered by one
  response for each \<^verbatim>\<open>controlRide\<close> call with arguments, in order, and by nothing for the other
  calls. When the handler ends with an exception, no response has been sent for the message;
  that happens when the audio block of the message throws, and when the tool call carries no
  list of function calls (a \<^verbatim>\<open>TypeError\<close>).
\<close>

theorem functionCall_answers:
  "(fc_name fc \<noteq> ''controlRide'' \<or> fc_args fc = None \<longrightarrow> onmessage_functionCall s fc = s)
   \<and> (fc_name fc = ''controlRide'' \<and> fc_args fc \<noteq> None \<longrightarrow>
        tool_responses (onmessage_functionCall s fc)
          = tool_responses s @
              [\<lparr>fr_id = fc_id fc, fr_name = ''controlRide'', fr_result = ok_result\<rparr>])
   \<and> (toolCall m = Some tc \<and> functionCalls tc = Some fcs \<longrightarrow>
        fst (onmessage_toolCall m s) = None
        \<and> tool_responses (snd (onmessage_toolCall m s))
            = tool_responses s @ map answer (filter handled fcs))
   \<and> (toolCall m = Some tc \<and> functionCalls tc = Some fcs \<and> fst (onmessage dec now m s) = None
        \<longrightarrow> tool_responses (snd (onmessage dec now m s))
            = tool_responses s @ map answer (filter handled fcs))
   \<and> (fst (onmessage dec now m s) \<noteq> None \<longrightarrow>
        tool_responses (snd (onmessage dec now m s)) = tool_responses s)
   \<and> (toolCall m = Some tc \<and> functionCalls tc = None \<and> audio_exception dec now m s = None
        \<longrightarrow> fst (onmessage dec now m s) = Some TypeError)"
proof -
  have skip: "fc_name fc \<noteq> ''controlRide'' \<or> fc_args fc = None \<longrightarrow>
      onmessage_functionCall s fc = s"
    by (auto simp add: onmessage_functionCall_def)
  have one: "fc_name fc = ''controlRide'' \<and> fc_args fc \<noteq> None \<longrightarrow>
      tool_responses (onmessage_functionCall s fc)
        = tool_responses s @
            [\<lparr>fr_id = fc_id fc, fr_name = ''controlRide'', fr_result = ok_result\<rparr>]"
    by (simp add: functionCall_responses handled_def answer_def)
  have block: "toolCall m = Some tc \<and> functionCalls tc = Some fcs \<longrightarrow>
      fst (onmessage_toolCall m s) = None
      \<and> tool_responses (snd (onmessage_toolCall m s))
          = tool_responses s @ map answer (filter handled fcs)"
    by (simp add: toolCall_with_calls foldl_functionCall_responses)
  have through: "toolCall m = Some tc \<and> functionCalls tc = Some fcs
      \<and> fst (onmessage dec now m s) = None
      \<longrightarrow> tool_responses (snd (onmessage dec now m s))
          = tool_responses s @ map answer (filter handled fcs)"
    using onmessage_answers [of m tc fcs dec now s] by blast
  have thrown: "fst (onmessage dec now m s) \<noteq> None \<longrightarrow>
      tool_responses (snd (onmessage dec now m s)) = tool_responses s"
    using onmessage_throws_silent [of dec now m s] by blast
  have missing: "toolCall m = Some tc \<and> functionCalls tc = None
      \<and> audio_exception dec now m s = None
      \<longrightarrow> fst (onmessage dec now m s) = Some TypeError"
    using onmessage_without_calls [of m tc dec now s] by blast
  from skip one block through thrown missing show ?thesis
    by (intro conjI)
qed

theorem functionCall_answers_witness:
  "onmessage_functionCall listening cancel_call = listening
   \<and> tool_responses (onmessage_functionCall listening bike_call)
       = [\<lparr>fr_id = ''call-4'', fr_name = ''controlRide'', fr_result = ok_result\<rparr>]
   \<and> fst (onmessage run_decoder 0 (tool_message [cancel_call, bike_call]) listening) = None
   \<and> tool_responses (snd (onmessage run_decoder 0 (tool_message [cancel_call, bike_call])
        listening))
       = [\<lparr>fr_id = ''call-4'', fr_name = ''controlRide'', fr_result = ok_result\<rparr>]
   \<and> fst (onmessage run_decoder 0 (no_content\<lparr>toolCall := Some \<lparr>functionCalls = None\<rparr>\<rparr>)
        listening) = Some TypeError
   \<and> tool_responses (snd (onmessage run_decoder 0
        (no_content\<lparr>toolCall := Some \<lparr>functionCalls = None\<rparr>\<rparr>) listening)) = []"
proof -
  let ?m = "tool_message [cancel_call, bike_call]"
  let ?bad = "no_content\<lparr>toolCall := Some \<lparr>functionCalls = None\<rparr>\<rparr>"
  have m: "toolCall ?m = Some \<lparr>functionCalls = Some [cancel_call, bike_call]\<rparr>"
    "functionCalls \<lparr>functionCalls = Some [cancel_call, bike_call]\<rparr>
       = Some [cancel_call, bike_call]"
    by (simp_all add: tool_message_def)
  have through: "fst (onmessage run_decoder 0 ?m listening) = None"
    by (simp add: onmessage_def onmessage_audio_def base64Audio_def no_content_def
        tool_message_def onmessage_transcription_def onmessage_toolCall_def
        split: prod.splits option.splits)
  have bad: "toolCall ?bad = Some \<lparr>functionCalls = None\<rparr>"
    "functionCalls \<lparr>functionCalls = None\<rparr> = None"
    by simp_all
  have quiet: "audio_exception run_decoder 0 ?bad listening = None"
    by (simp add: audio_exception_def onmessage_audio_def base64Audio_def no_content_def
        onmessage_transcription_def)
  have names: "fc_name cancel_call \<noteq> ''controlRide''" "fc_name bike_call = ''controlRide''"
    "fc_args bike_call \<noteq> None" "fc_id bike_call = ''call-4''"
    "filter handled [cancel_call, bike_call] = [bike_call]"
    "answer bike_call = \<lparr>fr_id = ''call-4'', fr_name = ''controlRide'', fr_result = ok_result\<rparr>"
    by (simp_all add: cancel_call_def bike_call_def handled_def answer_def)
  note unknown = functionCall_answers [where fc = cancel_call and s = listening and m = ?m
      and tc = "\<lparr>functionCalls = Some [cancel_call, bike_call]\<rparr>"
      and fcs = "[cancel_call, bike_call]" and dec = run_decoder and now = 0]
  note known = functionCall_answers [where fc = bike_call and s = listening and m = ?m
      and tc = "\<lparr>functionCalls = Some [cancel_call, bike_call]\<rparr>"
      and fcs = "[cancel_call, bike_call]" and dec = run_decoder and now = 0]
  note broken = functionCall_answers [where fc = bike_call and s = listening and m = ?bad
      and tc = "\<lparr>functionCalls = None\<rparr>" and fcs = "[]" and dec = run_decoder and now = 0]
  have a: "onmessage_functionCall listening cancel_call = listening"
    using unknown names by blast
  have b: "tool_responses (onmessage_functionCall listening bike_call)
      = tool_responses listening
        @ [\<lparr>fr_id = fc_id bike_call, fr_name = ''controlRide'', fr_result = ok_result\<rparr>]"
    using known names by blast
  have c: "tool_responses (snd (onmessage run_decoder 0 ?m listening))
      = tool_responses listening @ map answer (filter handled [cancel_call, bike_call])"
    using known m through by blast
  have d: "fst (onmessage run_decoder 0 ?bad listening) = Some TypeError"
    using broken bad quiet by blast
  then have e: "tool_responses (snd (onmessage run_decoder 0 ?bad listening))
      = tool_responses listening"
    using broken by simp
  show ?thesis
    using a b c d e through names by (simp add: responses_listening)
qed




subsection \<open>Transcripts\<close>

text \<open>
  C8, as stated, fails. The assistant's transcript reads \<^verbatim>\<open>Hello!\<close> and a message that only
  says the turn is complete arrives: the assistant's transcript still reads \<^verbatim>\<open>Hello!\<close>
  afterwards; it has not been reset.
\<close>

theorem turn_complete_counterexample:
  "assistantResponse (snd (onmessage run_decoder 0 (no_content\<lparr>turnComplete := True\<rparr>)
      (listening\<lparr>assistantResponse := ''Hello!''\<rparr>))) = ''Hello!''"
  using onmessage_no_content [where dec = run_decoder and now = 0 and i = False and c = True
      and s = "listening\<lparr>assistantResponse := ''Hello!''\<rparr>"]
  by (simp add: no_content_def onmessage_interrupted_def onmessage_turnComplete_def)

text \<open>
  C8, amended. Whatever else a message holds and however its handler ends, a user
  transcription it carries replaces the user's transcript and an assistant transcription it
  carries replaces the assistant's transcript (nothing is appended); a transcript the message
  does not speak of stays as it was. The only exceptions are the two resets. A message that
  says the turn is complete leaves the user's transcript empty, provided its handler runs to
  its end; if the handler ends with an exception, the user's transcript is not reset. The
  assistant's transcript is not reset by the end of a turn: it is emptied by a message flagged
  \<^verbatim>\<open>interrupted\<close>, provided the audio block of that message throws nothing, and by nothing else.
\<close>

theorem transcripts_replaced:
  "userTranscription (snd (onmessage dec now m s))
     = (if turnComplete m \<and> fst (onmessage dec now m s) = None then []
        else case inputTranscription m of Some t \<Rightarrow> t | None \<Rightarrow> userTranscription s)
   \<and> assistantResponse (snd (onmessage dec now m s))
     = (if interrupted m \<and> audio_exception dec now m s = None then []
        else case outputTranscription m of Some t \<Rightarrow> t | None \<Rightarrow> assistantResponse s)"
proof -
  obtain r1 s1 where audio: "onmessage_audio dec now m (onmessage_transcription m s) = (r1, s1)"
    by force
  have exn: "audio_exception dec now m s = r1"
    by (simp add: audio_exception_def audio)
  note keep = audio_keeps_text [OF audio]
  show ?thesis
  proof (cases r1)
    case (Some e)
    have "onmessage dec now m s = (Some e, s1)"
      using audio Some by (intro onmessage_audio_throws) simp
    then show ?thesis
      by (simp add: exn Some keep transcription_text)
  next
    case None
    obtain r2 s2 where tool: "onmessage_toolCall m (onmessage_interrupted m s1) = (r2, s2)"
      by force
    have s2: "userTranscription s2 = userTranscription s1"
      "assistantResponse s2 = (if interrupted m then [] else assistantResponse s1)"
      using toolCall_keeps(3,4) [of m "onmessage_interrupted m s1"]
      by (simp_all add: tool interrupted_keeps)
    show ?thesis
    proof (cases r2)
      case (Some e)
      have "onmessage dec now m s = (Some e, s2)"
        using audio None tool Some by (intro onmessage_toolCall_throws) simp_all
      then show ?thesis
        by (simp add: exn None s2 keep transcription_text)
    next
      case r2: None
      have "onmessage dec now m s = (None, onmessage_turnComplete m s2)"
        using audio None tool r2 by (intro onmessage_runs_through) simp_all
      then show ?thesis
        by (simp add: exn None s2 keep transcription_text onmessage_turnComplete_def)
    qed
  qed
qed

theorem transcripts_replaced_witness:
  "userTranscription (snd (onmessage run_decoder 0
      (no_content\<lparr>inputTranscription := Some ''Book a car'', outputTranscription := Some ''Sure''\<rparr>)
      (listening\<lparr>userTranscription := ''Book'', assistantResponse := ''Hello!''\<rparr>)))
     = ''Book a car''
   \<and> assistantResponse (snd (onmessage run_decoder 0
      (no_content\<lparr>inputTranscription := Some ''Book a car'', outputTranscription := Some ''Sure''\<rparr>)
      (listening\<lparr>userTranscription := ''Book'', assistantResponse := ''Hello!''\<rparr>)))
     = ''Sure''
   \<and> userTranscription (snd (onmessage run_decoder 0 (no_content\<lparr>turnComplete := True\<rparr>)
      (listening\<lparr>userTranscription := ''Book'', assistantResponse := ''Hello!''\<rparr>))) = []
   \<and> userTranscription (snd (onmessage run_decoder 0
      ((audio_message ''AA!!'')\<lparr>turnComplete := True\<rparr>)
      (listening\<lparr>userTranscription := ''Book'', assistantResponse := ''Hello!''\<rparr>))) = ''Book''"
proof -
  let ?s = "listening\<lparr>userTranscription := ''Book'', assistantResponse := ''Hello!''\<rparr>"
  let ?m = "no_content\<lparr>inputTranscription := Some ''Book a car'',
    outputTranscription := Some ''Sure''\<rparr>"
  let ?done = "no_content\<lparr>turnComplete := True\<rparr>"
  let ?bad = "(audio_message ''AA!!'')\<lparr>turnComplete := True\<rparr>"
  have through: "fst (onmessage run_decoder 0 ?done ?s) = None"
    using onmessage_no_content [where dec = run_decoder and now = 0 and i = False and c = True
        and s = ?s]
    by (simp add: no_content_def)
  have "onmessage_audio run_decoder 0 ?bad (onmessage_transcription ?bad ?s)
      = (Some DecodeError, raise_cursor 0 (onmessage_transcription ?bad ?s))"
    by (simp add: onmessage_audio_def base64Audio_def audio_message_def no_content_def
        run_decoder_def transcription_keeps listening_fields)
  then have thrown: "fst (onmessage run_decoder 0 ?bad ?s) = Some DecodeError"
    by (simp add: onmessage_audio_throws)
  show ?thesis
    using transcripts_replaced [of run_decoder 0 ?m ?s]
      transcripts_replaced [of run_decoder 0 ?done ?s]
      transcripts_replaced [of run_decoder 0 ?bad ?s] through thrown
    by (simp add: no_content_def audio_message_def)
qed

subsection \<open>Audio frames that fail to decode\<close>

text \<open>
  C9, as stated, fails. A message that carries an audio frame the decoder rejects and also a
  \<^verbatim>\<open>controlRide\<close> call for a bike reaches a listening session. The handler ends with the
  decoder's exception, and the call of the same message is lost: the host's vehicle is still
  \<^verbatim>\<open>CAR\<close> and no response has been sent. The same message without the audio frame sets the
  vehicle to \<^verbatim>\<open>BIKE\<close>.
\<close>

theorem decode_failure_counterexample:
  "fst (onmessage run_decoder 1
      ((audio_message ''AA!!'')\<lparr>toolCall := Some \<lparr>functionCalls = Some [bike_call]\<rparr>\<rparr>)
      listening) = Some DecodeError
   \<and> vehicle (host (snd (onmessage run_decoder 1
        ((audio_message ''AA!!'')\<lparr>toolCall := Some \<lparr>functionCalls = Some [bike_call]\<rparr>\<rparr>)
        listening))) = ''CAR''
   \<and> tool_responses (snd (onmessage run_decoder 1
        ((audio_message ''AA!!'')\<lparr>toolCall := Some \<lparr>functionCalls = Some [bike_call]\<rparr>\<rparr>)
        listening)) = []
   \<and> vehicle (host (snd (onmessage run_decoder 1 (tool_message [bike_call]) listening)))
       = ''BIKE''"
  by (simp add: onmessage_def onmessage_audio_def base64Audio_def no_content_def audio_message_def
      tool_message_def onmessage_transcription_def onmessage_interrupted_def
      onmessage_toolCall_def onmessage_turnComplete_def run_decoder_def listening_fields
      raise_cursor_def tool_responses_def bike_call_def onmessage_functionCall_def
      controlRide_def host0_def Let_def)

text \<open>
  C9, amended. When the audio frame of a message fails to decode, the frame is dropped: no
  node is started, the active set, the effects so far, the host's state, the handles and the
  session's status are as before, and the cursor has only been raised to the output clock. The
  exception is not caught: the handler ends with it, and the state it leaves is the state
  after the transcription and the raising of the cursor, nothing more. So the blocks after the
  audio block are not run for that message: the transcripts hold what the transcription block
  has put there even when the message is flagged \<^verbatim>\<open>interrupted\<close> or says the turn is complete,
  and its function calls are neither applied nor answered.
\<close>

theorem decode_failure_drops_frame:
  assumes frame: "base64Audio m = Inr (Some b)" and nonempty: "b \<noteq> []"
    and ctx: "outputAudioContextRef s \<noteq> None" and bad: "dec b = Inl e"
    and run: "s' = snd (onmessage dec now m s)"
  shows "fst (onmessage dec now m s) = Some e
    \<and> s' = raise_cursor now (onmessage_transcription m s)
    \<and> status s' = status s \<and> isListening s' = isListening s
    \<and> sources s' = sources s \<and> effects s' = effects s \<and> host s' = host s
    \<and> handles s' = handles s
    \<and> nextStartTime s' = max (nextStartTime s) now
    \<and> userTranscription s'
        = (case inputTranscription m of Some t \<Rightarrow> t | None \<Rightarrow> userTranscription s)
    \<and> assistantResponse s'
        = (case outputTranscription m of Some t \<Rightarrow> t | None \<Rightarrow> assistantResponse s)"
proof -
  have "onmessage_audio dec now m (onmessage_transcription m s)
      = (Some e, raise_cursor now (onmessage_transcription m s))"
    using frame nonempty ctx bad by (simp add: onmessage_audio_def transcription_keeps)
  then have "onmessage dec now m s = (Some e, raise_cursor now (onmessage_transcription m s))"
    by (rule onmessage_audio_throws)
  then have s': "s' = raise_cursor now (onmessage_transcription m s)"
    and thrown: "fst (onmessage dec now m s) = Some e"
    by (simp_all add: run)
  have fields: "status s' = status s \<and> isListening s' = isListening s
      \<and> sources s' = sources s \<and> effects s' = effects s \<and> host s' = host s
      \<and> handles s' = handles s
      \<and> nextStartTime s' = max (nextStartTime s) now"
    by (simp add: s' raise_cursor_def transcription_keeps handles_def)
  have words: "userTranscription s'
        = (case inputTranscription m of Some t \<Rightarrow> t | None \<Rightarrow> userTranscription s)
      \<and> assistantResponse s'
        = (case outputTranscription m of Some t \<Rightarrow> t | None \<Rightarrow> assistantResponse s)"
    using transcription_text [of m s] by (simp add: s' raise_cursor_def)
  from thrown s' fields words show ?thesis
    by (intro conjI) simp_all
qed

theorem decode_failure_drops_frame_witness:
  "fst (onmessage run_decoder 1
      ((audio_message ''AA!!'')\<lparr>inputTranscription := Some ''Book a car'',
         interrupted := True, turnComplete := True\<rparr>)
      (listening\<lparr>assistantResponse := ''Hello!''\<rparr>)) = Some DecodeError
   \<and> status (snd (onmessage run_decoder 1
      ((audio_message ''AA!!'')\<lparr>inputTranscription := Some ''Book a car'',
         interrupted := True, turnComplete := True\<rparr>)
      (listening\<lparr>assistantResponse := ''Hello!''\<rparr>))) = ''Listening...''
   \<and> sources (snd (onmessage run_decoder 1
      ((audio_message ''AA!!'')\<lparr>inputTranscription := Some ''Book a car'',
         interrupted := True, turnComplete := True\<rparr>)
      (listening\<lparr>assistantResponse := ''Hello!''\<rparr>))) = []
   \<and> nextStartTime (snd (onmessage run_decoder 1
      ((audio_message ''AA!!'')\<lparr>inputTranscription := Some ''Book a car'',
         interrupted := True, turnComplete := True\<rparr>)
      (listening\<lparr>assistantResponse := ''Hello!''\<rparr>))) = 1
   \<and> userTranscription (snd (onmessage run_decoder 1
      ((audio_message ''AA!!'')\<lparr>inputTranscription := Some ''Book a car'',
         interrupted := True, turnComplete := True\<rparr>)
      (listening\<lparr>assistantResponse := ''Hello!''\<rparr>))) = ''Book a car''
   \<and> assistantResponse (snd (onmessage run_decoder 1
      ((audio_message ''AA!!'')\<lparr>inputTranscription := Some ''Book a car'',
         interrupted := True, turnComplete := True\<rparr>)
      (listening\<lparr>assistantResponse := ''Hello!''\<rparr>))) = ''Hello!''"
proof -
  let ?m = "(audio_message ''AA!!'')\<lparr>inputTranscription := Some ''Book a car'',
    interrupted := True, turnComplete := True\<rparr>"
  let ?s = "listening\<lparr>assistantResponse := ''Hello!''\<rparr>"
  have frame: "base64Audio ?m = Inr (Some ''AA!!'')"
    by (simp add: base64Audio_def audio_message_def no_content_def)
  have nonempty: "''AA!!'' \<noteq> []"
    by simp
  have ctx: "outputAudioContextRef ?s \<noteq> None"
    by (simp add: listening_fields)
  have bad: "run_decoder ''AA!!'' = Inl DecodeError"
    by (simp add: run_decoder_def)
  have start: "status ?s = ''Listening...''" "sources ?s = []" "nextStartTime ?s = 0"
    "assistantResponse ?s = ''Hello!''" "inputTranscription ?m = Some ''Book a car''"
    "outputTranscription ?m = None"
    by (simp_all add: listening_fields audio_message_def no_content_def)
  note drop = decode_failure_drops_frame [where now = 1 and dec = run_decoder and m = ?m
      and s' = "snd (onmessage run_decoder 1 ?m ?s)", OF frame nonempty ctx bad refl]
  have a: "fst (onmessage run_decoder 1 ?m ?s) = Some DecodeError"
    using drop by blast
  have b: "status (snd (onmessage run_decoder 1 ?m ?s)) = status ?s"
    "sources (snd (onmessage run_decoder 1 ?m ?s)) = sources ?s"
    "nextStartTime (snd (onmessage run_decoder 1 ?m ?s)) = max (nextStartTime ?s) 1"
    using drop by blast+
  have c: "userTranscription (snd (onmessage run_decoder 1 ?m ?s))
      = (case inputTranscription ?m of Some t \<Rightarrow> t | None \<Rightarrow> userTranscription ?s)"
    "assistantResponse (snd (onmessage run_decoder 1 ?m ?s))
      = (case outputTranscription ?m of Some t \<Rightarrow> t | None \<Rightarrow> assistantResponse ?s)"
    using drop by blast+
  show ?thesis
    unfolding a b c start by simp
qed

subsection \<open>Handles of a session\<close>

text \<open>
  C1. The code breaks the invariant; these are the states it reaches. When the microphone is
  acquired and the connection is then rejected, \<^verbatim>\<open>connectAndListen\<close> ends with a failure
  status while the microphone stream and the output context are open and there is no session:
  some handles open, one not. When a listening session receives \<^verbatim>\<open>onerror\<close> or \<^verbatim>\<open>onclose\<close>, the
  status says failed or closed while all three handles stay open. (The voice search of
  \<^verbatim>\<open>ExploreView\<close> releases its handles in both handlers.)
\<close>

theorem failed_start_keeps_handles:
  "handles (connectAndListen (ConnectRejected ''Error'') (initial host0))
      = (True, Some Running, False)
   \<and> status (connectAndListen (ConnectRejected ''Error'') (initial host0))
      = ''Could not start microphone. Please check permissions.''
   \<and> handles (onerror listening) = (True, Some Running, True)
   \<and> status (onerror listening) = ''Connection error. Please try again.''
   \<and> handles (onclose listening) = (True, Some Running, True)
   \<and> status (onclose listening) = ''Connection closed.''"
  by (simp add: handles_def connectAndListen_def connectAndListen_begin_def
      connectAndListen_resume_def start_failed_def acquire_def initial_def onerror_def
      onclose_def listening_def onopen_def)

subsection \<open>Stopping\<close>

lemma stopListening_times:
  "times TrackStop (stopListening b s) = times TrackStop s + (if streamRef s then 1 else 0)"
  "times (ContextClose InputContext) (stopListening b s)
     = times (ContextClose InputContext) s + (if live (inputAudioContextRef s) then 1 else 0)"
  "times (ContextClose OutputContext) (stopListening b s)
     = times (ContextClose OutputContext) s + (if live (outputAudioContextRef s) then 1 else 0)"
  "times SessionClose (stopListening b s) = times SessionClose s + (if sessionRef s then 1 else 0)"
  by (auto simp add: times_def stopListening_def Let_def close_session_def
      disconnect_processor_def stop_sources_def close_output_def close_input_def
      stop_stream_def count_list_0_iff)

lemma stopListening_refs:
  "streamRef (stopListening b s) = False"
  "sessionRef (stopListening b s) = False"
  "inputAudioContextRef (stopListening False s) = inputAudioContextRef s"
  "outputAudioContextRef (stopListening False s) = outputAudioContextRef s"
  "\<not> live (inputAudioContextRef (stopListening True s))"
  "\<not> live (outputAudioContextRef (stopListening True s))"
  by (simp_all add: stopListening_def Let_def close_session_def disconnect_processor_def
      stop_sources_def close_output_def close_input_def stop_stream_def)

text \<open>Once everything is released and every guard is shut, \<^verbatim>\<open>stopListening\<close> changes nothing.\<close>

lemma stopListening_fixed:
  assumes "streamRef s = False" "processorRef s = False" "sessionRef s = False"
    "sources s = []" "isListening s = False" "isVoiceAssistantOpen (host s) = False"
    "\<not> live (inputAudioContextRef s)" "\<not> live (outputAudioContextRef s)"
  shows "stopListening b s = s"
  using assms
  by (auto simp add: stopListening_def Let_def close_session_def disconnect_processor_def
      stop_sources_def close_output_def close_input_def stop_stream_def)

text \<open>
  Where the browser turns a context's state to \<^verbatim>\<open>closed\<close> at once, the guards are shut after
  the first \<^verbatim>\<open>stopListening\<close>: a second one changes nothing.
\<close>

lemma stopListening_at_once_twice:
  "stopListening True (stopListening True s) = stopListening True s"
  by (rule stopListening_fixed)
    (simp_all add: stopListening_def Let_def close_session_def disconnect_processor_def
      stop_sources_def close_output_def close_input_def stop_stream_def)

text \<open>
  Where the state turns in a later task, a \<^verbatim>\<open>stopListening\<close> that comes after that task changes
  nothing either.
\<close>

lemma stopListening_after_statechange:
  "stopListening b (statechange OutputContext (statechange InputContext (stopListening False s)))
     = statechange OutputContext (statechange InputContext (stopListening False s))"
  by (rule stopListening_fixed)
    (auto simp add: statechange_def stopListening_def Let_def close_session_def
      disconnect_processor_def stop_sources_def close_output_def close_input_def
      stop_stream_def)

text \<open>
  C10. The code breaks the claim; these are the runs. The context refs are never reset, so
  where the browser turns a context's state to \<^verbatim>\<open>closed\<close> only in a later task, a second
  \<^verbatim>\<open>stopListening\<close> right after the first finds both guards open and calls \<^verbatim>\<open>close()\<close> on both
  contexts again: it is not without effect, and each context has been closed twice. (The
  microphone's track and the session, whose refs are reset, are released once; the cleanup of
  \<^verbatim>\<open>ExploreView\<close> resets its context ref as well.) And a \<^verbatim>\<open>stopListening\<close> that comes while the
  start is waiting for the microphone releases nothing and does not stop the start, which goes
  on to open the microphone, both contexts and the session; the component is closed by then
  and nothing releases them.
\<close>

theorem stopListening_twice_closes_again:
  "times (ContextClose InputContext) (stopListening False (stopListening False listening)) = 2
   \<and> times (ContextClose OutputContext) (stopListening False (stopListening False listening)) = 2
   \<and> times TrackStop (stopListening False (stopListening False listening)) = 1
   \<and> times SessionClose (stopListening False (stopListening False listening)) = 1
   \<and> effects (stopListening False (stopListening False listening))
       \<noteq> effects (stopListening False listening)
   \<and> effects (stopListening True connecting) = []
   \<and> handles (connectAndListen_resume Connected (stopListening True connecting))
       = (True, Some Running, True)
   \<and> effects (connectAndListen_resume Connected (stopListening True connecting)) = []
   \<and> isVoiceAssistantOpen
        (host (connectAndListen_resume Connected (stopListening True connecting))) = False"
proof -
  have none: "times e listening = 0" for e
    by (simp add: times_def listening_fields)
  have counts: "times (ContextClose InputContext) (stopListening False (stopListening False listening)) = 2
      \<and> times (ContextClose OutputContext) (stopListening False (stopListening False listening)) = 2
      \<and> times TrackStop (stopListening False (stopListening False listening)) = 1
      \<and> times SessionClose (stopListening False (stopListening False listening)) = 1"
    by (simp add: stopListening_times stopListening_refs none listening_fields)
  have "times (ContextClose InputContext) (stopListening False listening) = 1"
    by (simp add: stopListening_times none listening_fields)
  then have differ: "effects (stopListening False (stopListening False listening))
      \<noteq> effects (stopListening False listening)"
    using counts by (auto simp add: times_def)
  have early: "stopListening True connecting
      = connecting\<lparr>host := (host connecting)\<lparr>isVoiceAssistantOpen := False\<rparr>\<rparr>"
    by (simp add: stopListening_def Let_def close_session_def disconnect_processor_def
        stop_sources_def close_output_def close_input_def stop_stream_def connecting_def
        connectAndListen_begin_def initial_def)
  have leak: "effects (stopListening True connecting) = []
      \<and> handles (connectAndListen_resume Connected (stopListening True connecting))
          = (True, Some Running, True)
      \<and> effects (connectAndListen_resume Connected (stopListening True connecting)) = []
      \<and> isVoiceAssistantOpen
          (host (connectAndListen_resume Connected (stopListening True connecting))) = False"
    unfolding early
    by (simp add: connectAndListen_resume_def onopen_def acquire_def handles_def connecting_def
        connectAndListen_begin_def initial_def)
  from counts differ leak show ?thesis
    by (intro conjI) simp_all
qed

subsection \<open>Outbound audio encoding\<close>

lemma int16_bytes_of_int: "int16_bytes (word_of_int i) = le_bytes i"
proof -
  have m: "(word_of_int (k mod 256) :: 8 word) = word_of_int k" for k
    by (simp add: word_of_int_eq_iff take_bit_eq_mod)
  have "(ucast (word_of_int i :: 16 word) :: 8 word) = word_of_int i"
    by (rule bit_word_eqI) (auto simp add: bit_simps)
  then have lo: "(ucast (word_of_int i :: 16 word) :: 8 word) = word_of_int (i mod 256)"
    by (simp add: m)
  have "(ucast (drop_bit 8 (word_of_int i :: 16 word)) :: 8 word) = word_of_int (drop_bit 8 i)"
    by (rule bit_word_eqI) (auto simp add: bit_simps)
  moreover have "drop_bit 8 i = i div 256"
    by (simp add: drop_bit_eq_div)
  ultimately have hi: "(ucast (drop_bit 8 (word_of_int i :: 16 word)) :: 8 word)
      = word_of_int (i div 256 mod 256)"
    by (simp add: m)
  show ?thesis
    by (simp add: int16_bytes_def le_bytes_def lo hi)
qed

lemma js_trunc_range:
  assumes "- 1 \<le> x" "x < 1"
  shows "- 32768 \<le> js_trunc (x * 32768) \<and> js_trunc (x * 32768) \<le> 32767"
proof (cases "0 \<le> x")
  case True
  then have "js_trunc (x * 32768) = \<lfloor>x * 32768\<rfloor>"
    by (simp add: js_trunc_def)
  moreover have "\<lfloor>x * 32768\<rfloor> < 32768"
    using assms by (simp add: floor_less_iff)
  moreover have "0 \<le> \<lfloor>x * 32768\<rfloor>"
    using True by simp
  ultimately show ?thesis by simp
next
  case False
  then have "js_trunc (x * 32768) = \<lceil>x * 32768\<rceil>"
    by (simp add: js_trunc_def)
  moreover have "- 32768 \<le> \<lceil>x * 32768\<rceil>"
    using assms by (simp add: le_ceiling_iff)
  moreover have "\<lceil>x * 32768\<rceil> \<le> 0"
    using False by (simp add: ceiling_le_iff)
  ultimately show ?thesis by simp
qed

lemma sint_toInt16:
  assumes "- 1 \<le> x" "x < 1"
  shows "sint (toInt16 (x * 32768)) = js_trunc (x * 32768)"
  using js_trunc_range [OF assms]
  by (simp add: toInt16_def signed_of_int signed_take_bit_int_eq_self)

lemma pcm_bytes_le: "pcm_bytes xs = concat (map (\<lambda>x. le_bytes (js_trunc (x * 32768))) xs)"
  by (simp add: pcm_bytes_def toInt16_def int16_bytes_of_int comp_def)

text \<open>
  C7, as stated, fails. For the sample 0.75 the callback produces the 16-bit value 24576
  (0.75 times 32768; bytes 0 and 96) where \<open>round (0.75 * 32767)\<close> is 24575 (bytes 255 and
  95): the scale factor is 32768 and the fraction is cut off, not rounded. For the sample 1 it
  produces \<open>- 32768\<close> where the clamped value is 32767: the conversion wraps around.
\<close>

theorem encode_scale_counterexample:
  "blob_data (onaudioprocess raw_string [3 / 4]) \<noteq> spec_encode raw_string [3 / 4]
   \<and> pcm_bytes [3 / 4] = [0, 96] \<and> spec_pcm_bytes [3 / 4] = [255, 95]
   \<and> sint (toInt16 (3 / 4 * 32768)) = 24576 \<and> spec_sample (3 / 4) = 24575
   \<and> sint (toInt16 (1 * 32768)) = - 32768 \<and> spec_sample 1 = 32767"
  by (simp add: onaudioprocess_def spec_encode_def raw_string_def pcm_bytes_def
      spec_pcm_bytes_def toInt16_def js_trunc_def int16_bytes_def spec_sample_def round_def)

text \<open>
  C7, amended. For samples in \<open>[-1, 1)\<close> the callback scales each sample by 32768 and cuts
  the fraction off (towards zero). The result lies in the 16-bit signed range, so nothing is
  clamped and nothing wraps. The values are serialised as two bytes each, low byte first, and
  the bytes are handed to the transport encoding; the blob is tagged
  \<^verbatim>\<open>audio/pcm;rate=16000\<close>.
\<close>

theorem onaudioprocess_encoding:
  assumes "\<forall>x \<in> set inputData. - 1 \<le> x \<and> x < 1"
  shows "blob_data (onaudioprocess encode inputData)
      = encode (concat (map (\<lambda>x. le_bytes (js_trunc (x * 32768))) inputData))
    \<and> mimeType (onaudioprocess encode inputData) = ''audio/pcm;rate=16000''
    \<and> (\<forall>x \<in> set inputData.
          sint (toInt16 (x * 32768)) = js_trunc (x * 32768)
          \<and> - 32768 \<le> js_trunc (x * 32768) \<and> js_trunc (x * 32768) \<le> 32767)"
  using assms by (simp add: onaudioprocess_def pcm_bytes_le sint_toInt16 js_trunc_range)

theorem onaudioprocess_encoding_witness:
  "blob_data (onaudioprocess raw_string [3 / 4, - 1 / 2]) = raw_string [0, 96, 0, 192]
   \<and> sint (toInt16 (- 1 / 2 * 32768)) = - 16384"
proof -
  have range: "\<forall>x \<in> set [3 / 4, - 1 / 2 :: real]. - 1 \<le> x \<and> x < 1"
    by simp
  have bytes: "le_bytes (js_trunc (3 / 4 * 32768)) = [0, 96]"
    "le_bytes (js_trunc (- 1 / 2 * 32768)) = [0, 192]"
    by (simp_all add: le_bytes_def js_trunc_def)
  have cut: "js_trunc (- 1 / 2 * 32768) = - 16384"
    by (simp add: js_trunc_def)
  show ?thesis
    using onaudioprocess_encoding [OF range, of raw_string] bytes cut by simp
qed

end
